theory Spec2Isabelle
  imports Main "HOL-Library.Word"
begin

unbundle bit_operations_syntax

section \<open>Bytes, messages, errors\<close>

text \<open>
  A Go \<open>byte\<close> is an 8-bit word, a \<open>[]byte\<close> (and the type \<open>msg\<close>, which is a
  \<open>[]byte\<close>) a list of them. A Go \<open>string\<close> is a sequence of bytes as well and is kept
  as an Isabelle \<open>string\<close>; \<open>bytes_of\<close> is the conversion \<open>[]byte(s)\<close>.
\<close>

type_synonym byte = "8 word"
type_synonym msg = "byte list"

definition bytes_of :: "string \<Rightarrow> byte list" where
  "bytes_of s = map of_char s"

text \<open>
  Modelled from the spec: the error helpers \<open>fromErr\<close> and \<open>WithSeverity\<close> and the
  constant \<open>FATAL\<close> come from a file that is not part of the sources at hand. The spec
  (4.3, 6) only says that an emitted error carries a severity field and a diagnostic,
  so both helpers are kept as uninterpreted constructors of the error values.
  \<open>EOF\<close> is \<open>io.EOF\<close>, \<open>Errorf s\<close> an error value whose text is \<open>s\<close>
  (the result of \<open>fmt.Errorf\<close>, or any error of a collaborator).
\<close>

datatype severity = FATAL

datatype error = EOF | Errorf string | FromErr error | WithSeverity error severity

section \<open>The connection\<close>

text \<open>
  \<open>msgReadWriter\<close>, \<open>session.Write\<close> and \<open>Protocol.write\<close> are interfaces to the
  client connection whose implementations are outside the sources at hand. They are
  modelled by a scripted connection: \<open>sent\<close> logs the messages that were written
  successfully, oldest first; \<open>write_results\<close> gives the outcome of the coming calls of
  \<open>Write\<close>, one entry a call (\<open>None\<close> is success; past the end every write
  succeeds); \<open>read_results\<close> gives the outcome of the coming calls of \<open>Read\<close>
  (past the end the peer has closed the connection and \<open>Read\<close> fails with \<open>EOF\<close>).
\<close>

record conn =
  sent :: "msg list"
  write_results :: "error option list"
  read_results :: "(error + msg) list"

definition conn_Write :: "conn \<Rightarrow> msg \<Rightarrow> error option \<times> conn" where
  "conn_Write c m =
     (case write_results c of
        [] \<Rightarrow> (None, c\<lparr>sent := sent c @ [m]\<rparr>)
      | None # rs \<Rightarrow> (None, c\<lparr>sent := sent c @ [m], write_results := rs\<rparr>)
      | Some e # rs \<Rightarrow> (Some e, c\<lparr>write_results := rs\<rparr>))"

definition conn_Read :: "conn \<Rightarrow> (error + msg) \<times> conn" where
  "conn_Read c =
     (case read_results c of
        [] \<Rightarrow> (Inl EOF, c)
      | r # rs \<Rightarrow> (r, c\<lparr>read_results := rs\<rparr>))"

section \<open>The transaction buffer\<close>

text \<open>
  \<open>type transaction struct { p *Protocol; in []pgproto3.FrontendMessage; out []Message }\<close>.
  The method \<open>Type\<close> of a message is not part of the sources at hand; it is the
  parameter \<open>Ty\<close> of the operations that call it.
\<close>

record transaction =
  t_p :: conn
  t_in :: "msg list"
  t_out :: "msg list"

text \<open>\<open>NextFrontendMessage\<close>: a message that was read is appended to \<open>in\<close>.\<close>

definition transaction_NextFrontendMessage ::
  "transaction \<Rightarrow> (error + msg) \<times> transaction" where
  "transaction_NextFrontendMessage t =
     (case conn_Read (t_p t) of
        (Inr m, p') \<Rightarrow> (Inr m, t\<lparr>t_p := p', t_in := t_in t @ [m]\<rparr>)
      | (Inl err, p') \<Rightarrow> (Inl err, t\<lparr>t_p := p'\<rparr>))"

text \<open>
  \<open>Write\<close>: nothing is appended when the last queued message has type \<open>'E'\<close>
  (\<open>0x45\<close>); the returned error is \<open>nil\<close> on both paths.
\<close>

definition transaction_Write ::
  "(msg \<Rightarrow> byte) \<Rightarrow> transaction \<Rightarrow> msg \<Rightarrow> error option \<times> transaction" where
  "transaction_Write Ty t m =
     (if length (t_out t) > 0 \<and> Ty (t_out t ! (length (t_out t) - 1)) = 0x45
      then (None, t)
      else (None, t\<lparr>t_out := t_out t @ [m]\<rparr>))"

text \<open>
  \<open>flush\<close>: the loop \<open>for len(t.out) > 0\<close> writes the head of the queue and drops it
  after a successful write; a failed write ends the loop with the queue as it is.
\<close>

fun flush_loop :: "conn \<Rightarrow> msg list \<Rightarrow> error option \<times> conn \<times> msg list" where
  "flush_loop c [] = (None, c, [])"
| "flush_loop c (m # ms) =
     (case conn_Write c m of
        (Some err, c') \<Rightarrow> (Some err, c', m # ms)
      | (None, c') \<Rightarrow> flush_loop c' ms)"

definition transaction_flush :: "transaction \<Rightarrow> error option \<times> transaction" where
  "transaction_flush t =
     (case flush_loop (t_p t) (t_out t) of
        (err, c', rest) \<Rightarrow> (err, t\<lparr>t_p := c', t_out := rest\<rparr>))"

text \<open>A sequence of operations of a caller on one buffer.\<close>

datatype txn_op = Enqueue msg | Flush

fun apply_op :: "(msg \<Rightarrow> byte) \<Rightarrow> transaction \<Rightarrow> txn_op \<Rightarrow> transaction" where
  "apply_op Ty t (Enqueue m) = snd (transaction_Write Ty t m)"
| "apply_op Ty t Flush = snd (transaction_flush t)"

definition run_ops :: "(msg \<Rightarrow> byte) \<Rightarrow> transaction \<Rightarrow> txn_op list \<Rightarrow> transaction" where
  "run_ops Ty t ops = foldl (apply_op Ty) t ops"

text \<open>The buffer is poisoned when its queue ends in an error message.\<close>

definition poisoned :: "(msg \<Rightarrow> byte) \<Rightarrow> transaction \<Rightarrow> bool" where
  "poisoned Ty t \<longleftrightarrow> t_out t \<noteq> [] \<and> Ty (last (t_out t)) = 0x45"

text \<open>Writing the messages \<open>ms\<close> in order, all with success.\<close>

fun write_all :: "conn \<Rightarrow> msg list \<Rightarrow> conn option" where
  "write_all c [] = Some c"
| "write_all c (m # ms) =
     (case conn_Write c m of
        (None, c') \<Rightarrow> write_all c' ms
      | (Some err, c') \<Rightarrow> None)"

section \<open>Formatting\<close>

text \<open>
  The verbs of \<open>fmt\<close> that the code uses. \<open>%x\<close> of a byte slice or byte array is two
  lower-case hexadecimal digits a byte; \<open>%c\<close> of a byte is the UTF-8 encoding of the code
  point of that value (one byte below \<open>0x80\<close>, two from there on); \<open>%d\<close> is the
  decimal numeral, with a minus sign for a negative value.
\<close>

definition hex_digit :: "nat \<Rightarrow> char" where
  "hex_digit n = (if n < 10 then char_of (48 + n) else char_of (87 + n))"

definition fmt_x :: "byte list \<Rightarrow> string" where
  "fmt_x bs = concat (map (\<lambda>b. [hex_digit (unat b div 16), hex_digit (unat b mod 16)]) bs)"

definition fmt_c :: "byte \<Rightarrow> string" where
  "fmt_c b =
     (if b < 0x80 then [char_of (unat b)]
      else [char_of (unat (0xC0 OR drop_bit 6 b)), char_of (unat (0x80 OR (b AND 0x3F)))])"

function fmt_nat :: "nat \<Rightarrow> string" where
  "fmt_nat n = (if n < 10 then [char_of (48 + n)] else fmt_nat (n div 10) @ [char_of (48 + n mod 10)])"
  by pat_completeness auto
termination
  by (relation "measure id") auto

declare fmt_nat.simps [simp del]

definition fmt_d :: "int \<Rightarrow> string" where
  "fmt_d i = (if i < 0 then CHR ''-'' # fmt_nat (nat (- i)) else fmt_nat (nat i))"

section \<open>Authentication\<close>

text \<open>
  The message codec of the package (\<open>Type\<close>, \<open>errMsg\<close>, \<open>rowDescriptionMsg\<close>,
  \<open>dataRowMsg\<close>, \<open>completeMsg\<close>) is not part of the sources at hand: the functions
  of the model take it as the parameter \<open>K\<close>.
\<close>

datatype column = Column (col_name: string)

record codec =
  Type :: "msg \<Rightarrow> byte"
  errMsg :: "error \<Rightarrow> msg"
  rowDescriptionMsg :: "column list \<Rightarrow> msg"
  dataRowMsg :: "string list \<Rightarrow> msg"
  completeMsg :: "string \<Rightarrow> msg"

text \<open>The two format strings, applied to their argument.\<close>

definition expectedPasswordMessage :: "byte \<Rightarrow> string" where
  "expectedPasswordMessage t = ''expected password response, got message type '' @ fmt_c t"

definition passwordDidNotMatch :: "string \<Rightarrow> string" where
  "passwordDidNotMatch user =
     ''Password does not match for user '' @ [CHR 0x22] @ user @ [CHR 0x22]"

text \<open>
  A panic of the Go runtime ends the call without a result: a slice expression out of
  range, or a failed type assertion \<open>x.(string)\<close>.
\<close>

datatype panic = SliceBoundsOutOfRange | InterfaceConversion

text \<open>
  The slice expression \<open>s[lo:hi]\<close> on a slice: it panics unless
  \<open>0 \<le> lo \<le> hi \<le> cap(s)\<close>. The capacity is at least the length; the only slice
  expression of the code has \<open>hi = len(s) - 1\<close>, for which \<open>hi \<le> len(s)\<close> is the
  same as \<open>hi \<le> cap(s)\<close>.
\<close>

definition go_slice :: "'a list \<Rightarrow> int \<Rightarrow> int \<Rightarrow> panic + 'a list" where
  "go_slice s lo hi =
     (if 0 \<le> lo \<and> lo \<le> hi \<and> hi \<le> int (length s)
      then Inr (take (nat (hi - lo)) (drop (nat lo) s))
      else Inl SliceBoundsOutOfRange)"

definition extractPassword :: "msg \<Rightarrow> panic + byte list" where
  "extractPassword m = go_slice m 5 (int (length m) - 1)"

text \<open>
  \<open>hashWithSalt\<close>; \<open>H\<close> is \<open>md5.Sum\<close> of the standard library, a parameter of
  the model.
\<close>

definition hashWithSalt :: "(byte list \<Rightarrow> byte list) \<Rightarrow> byte list \<Rightarrow> byte list \<Rightarrow> byte list" where
  "hashWithSalt H hash salt =
     (let puHash = fmt_x hash;
          puHashSalted = bytes_of puHash @ salt;
          finalHash = ''md5'' @ fmt_x (H puHashSalted)
      in bytes_of finalHash)"

definition authOKMsg :: msg where
  "authOKMsg = [0x52, 0, 0, 0, 8, 0, 0, 0, 0]"

text \<open>
  \<open>getRandomSalt\<close>: a slice of 4 zero bytes that \<open>rand.Read\<close> fills, its error
  ignored. \<open>rnd\<close> is what the random source delivers (fewer than 4 bytes when it
  fails).
\<close>

definition getRandomSalt :: "byte list \<Rightarrow> byte list" where
  "getRandomSalt rnd = take 4 rnd @ replicate (4 - length rnd) 0"

text \<open>
  The password providers: the two of the code, and any other implementation of the
  interface, given by its \<open>getPassword\<close>.
\<close>

datatype passwordProvider =
    ConstantPasswordProvider "byte list"
  | Md5ConstantPasswordProvider "byte list"
  | OtherPasswordProvider "string \<Rightarrow> byte list \<times> error option"

fun getPassword ::
  "(byte list \<Rightarrow> byte list) \<Rightarrow> passwordProvider \<Rightarrow> string \<Rightarrow> byte list \<times> error option" where
  "getPassword H (ConstantPasswordProvider password) user = (password, None)"
| "getPassword H (Md5ConstantPasswordProvider password) user =
     (let pu = password @ bytes_of user; puHash = H pu in (puHash, None))"
| "getPassword H (OtherPasswordProvider f) user = f user"

text \<open>
  The session arguments \<open>map[string]interface{}\<close>: a value is a string or has another
  dynamic type; \<open>args["user"].(string)\<close> panics on a missing key and on a value that
  is not a string.
\<close>

datatype arg = StringArg string | OtherArg

definition user_arg :: "(string \<rightharpoonup> arg) \<Rightarrow> panic + string" where
  "user_arg args =
     (case args ''user'' of
        Some (StringArg user) \<Rightarrow> Inr user
      | _ \<Rightarrow> Inl InterfaceConversion)"

text \<open>
  An authenticator returns \<open>(bool, error)\<close> or panics, and leaves the connection in
  a new state.
\<close>

type_synonym auth_result = "(panic + bool \<times> error option) \<times> conn"

definition noPasswordAuthenticator_authenticate ::
  "conn \<Rightarrow> (string \<rightharpoonup> arg) \<Rightarrow> auth_result" where
  "noPasswordAuthenticator_authenticate rw args =
     (case conn_Write rw authOKMsg of (r, rw') \<Rightarrow> (Inr (True, r), rw'))"

definition clearTextAuthenticator_authenticate ::
  "codec \<Rightarrow> (byte list \<Rightarrow> byte list) \<Rightarrow> passwordProvider \<Rightarrow> conn \<Rightarrow> (string \<rightharpoonup> arg) \<Rightarrow> auth_result" where
  "clearTextAuthenticator_authenticate K H pp rw args =
     (let passwordRequest = [0x52, 0, 0, 0, 8, 0, 0, 0, 3] in
      case conn_Write rw passwordRequest of
        (Some err, rw1) \<Rightarrow> (Inr (False, Some err), rw1)
      | (None, rw1) \<Rightarrow>
          (case conn_Read rw1 of
             (Inl err, rw2) \<Rightarrow> (Inr (False, Some err), rw2)
           | (Inr m, rw2) \<Rightarrow>
               if Type K m \<noteq> 0x70 then
                 (let err = Errorf (expectedPasswordMessage (Type K m));
                      m' = errMsg K (WithSeverity (FromErr err) FATAL)
                  in case conn_Write rw2 m' of (r, rw3) \<Rightarrow> (Inr (False, r), rw3))
               else
                 (case user_arg args of
                    Inl pnc \<Rightarrow> (Inl pnc, rw2)
                  | Inr user \<Rightarrow>
                      (let (expectedPassword, err) = getPassword H pp user in
                       case extractPassword m of
                         Inl pnc \<Rightarrow> (Inl pnc, rw2)
                       | Inr actualPassword \<Rightarrow>
                           if expectedPassword \<noteq> actualPassword then
                             (let err = Errorf (passwordDidNotMatch user);
                                  m' = errMsg K (WithSeverity (FromErr err) FATAL)
                              in case conn_Write rw2 m' of (r, rw3) \<Rightarrow> (Inr (False, r), rw3))
                           else
                             (case conn_Write rw2 authOKMsg of
                                (r, rw3) \<Rightarrow> (Inr (True, r), rw3))))))"

definition md5Authenticator_authenticate ::
  "codec \<Rightarrow> (byte list \<Rightarrow> byte list) \<Rightarrow> byte list \<Rightarrow> passwordProvider \<Rightarrow> conn \<Rightarrow> (string \<rightharpoonup> arg) \<Rightarrow> auth_result" where
  "md5Authenticator_authenticate K H rnd pp rw args =
     (let salt = getRandomSalt rnd;
          passwordRequest = [0x52, 0, 0, 0, 12, 0, 0, 0, 5] @ salt in
      case conn_Write rw passwordRequest of
        (Some err, rw1) \<Rightarrow> (Inr (False, Some err), rw1)
      | (None, rw1) \<Rightarrow>
          (case conn_Read rw1 of
             (Inl err, rw2) \<Rightarrow> (Inr (False, Some err), rw2)
           | (Inr m, rw2) \<Rightarrow>
               if Type K m \<noteq> 0x70 then
                 (let err = Errorf (expectedPasswordMessage (Type K m));
                      m' = errMsg K (WithSeverity (FromErr err) FATAL)
                  in case conn_Write rw2 m' of (r, rw3) \<Rightarrow> (Inr (False, r), rw3))
               else
                 (case user_arg args of
                    Inl pnc \<Rightarrow> (Inl pnc, rw2)
                  | Inr user \<Rightarrow>
                      (let (storedHash, err) = getPassword H pp user;
                           expectedHash = hashWithSalt H storedHash salt in
                       case extractPassword m of
                         Inl pnc \<Rightarrow> (Inl pnc, rw2)
                       | Inr actualHash \<Rightarrow>
                           if expectedHash \<noteq> actualHash then
                             (let err = Errorf (passwordDidNotMatch user);
                                  m' = errMsg K (WithSeverity (FromErr err) FATAL)
                              in case conn_Write rw2 m' of (r, rw3) \<Rightarrow> (Inr (False, r), rw3))
                           else
                             (case conn_Write rw2 authOKMsg of
                                (r, rw3) \<Rightarrow> (Inr (True, r), rw3))))))"

text \<open>The first return value of a call that returned: \<open>ok\<close>.\<close>

definition accepted :: "auth_result \<Rightarrow> bool" where
  "accepted res = (case fst res of Inr (ok, err) \<Rightarrow> ok | Inl pnc \<Rightarrow> False)"

section \<open>The query dispatcher\<close>

text \<open>
  A parsed statement \<open>nodes.Node\<close> is opaque to the dispatcher except for its dynamic
  type, on which the two type switches branch; \<open>OtherStmt\<close> stands for every node
  type that the switches do not name.
\<close>

datatype node_type =
    InsertStmt | CreateTableAsStmt | DeleteStmt | FetchStmt | CopyStmt | UpdateStmt
  | SelectStmt | VariableShowStmt | OtherStmt string

record node =
  node_type :: node_type
  node_body :: string

text \<open>
  What \<open>session.Exec\<close> returns: a value that implements \<open>ResultTag\<close> (given by
  the outcome of its \<open>Tag\<close>) or a plain \<open>driver.Result\<close> (given by the outcome
  of its \<open>RowsAffected\<close>, an \<open>int64\<close>).
\<close>

datatype result = ResultTag "error + string" | DriverResult "error + 64 word"

text \<open>
  The backend behind \<open>session.Query\<close> and \<open>session.Exec\<close> is a collaborator: a
  parameter of the model. \<open>session_Query\<close> returns the column names and a row
  iterator in a state of type \<open>'it\<close>; \<open>rows_Next it dest\<close> is one call of
  \<open>rows.Next(dest)\<close>: its error, the contents of \<open>dest\<close> after the call, and the
  next state of the iterator. \<open>'v\<close> is the type of the values \<open>driver.Value\<close>.
\<close>

record ('v, 'it) backend =
  session_Query :: "node \<Rightarrow> error + string list \<times> 'it"
  rows_Next :: "'it \<Rightarrow> 'v list \<Rightarrow> error option \<times> 'v list \<times> 'it"
  session_Exec :: "node \<Rightarrow> error + result"

text \<open>
  The loop \<open>for i, v := range row { strings[i] = fmt.Sprintf("%v", v) }\<close>, from index
  \<open>i\<close> on; \<open>fmt_v\<close> is \<open>fmt.Sprintf("%v", _)\<close>.
\<close>

fun stringify :: "('v \<Rightarrow> string) \<Rightarrow> nat \<Rightarrow> 'v list \<Rightarrow> string list \<Rightarrow> string list" where
  "stringify fmt_v i [] strings = strings"
| "stringify fmt_v i (v # vs) strings = stringify fmt_v (Suc i) vs (strings[i := fmt_v v])"

text \<open>
  The loop \<open>for { err = rows.Next(row) ... }\<close> of \<open>Query\<close>. It ends when the
  iterator returns an error (\<open>io.EOF\<close> included) or a write fails; on an iterator that
  never does, the loop does not return, which is the value \<open>None\<close>. The counter
  \<open>count\<close> is a Go \<open>int\<close>, 64 bits wide on the 64-bit targets.
\<close>

partial_function (option) query_rows ::
  "codec \<Rightarrow> ('v \<Rightarrow> string) \<Rightarrow> ('it \<Rightarrow> 'v list \<Rightarrow> error option \<times> 'v list \<times> 'it) \<Rightarrow>
   'it \<Rightarrow> 'v list \<Rightarrow> string list \<Rightarrow> 64 word \<Rightarrow> conn \<Rightarrow> (error option \<times> conn) option" where
  "query_rows K fmt_v nxt it row strings count c =
     (case nxt it row of
        (Some err, row', it') \<Rightarrow>
          if err = EOF then
            (let tag = ''SELECT '' @ fmt_d (sint count)
             in Some (conn_Write c (completeMsg K tag)))
          else Some (conn_Write c (errMsg K err))
      | (None, row', it') \<Rightarrow>
          (let strings' = stringify fmt_v 0 row' strings in
           case conn_Write c (dataRowMsg K strings') of
             (Some err, c') \<Rightarrow> Some (Some err, c')
           | (None, c') \<Rightarrow> query_rows K fmt_v nxt it' row' strings' (count + 1) c'))"

text \<open>\<open>Query\<close>; \<open>vnil\<close> is the nil value that \<open>make([]driver.Value, n)\<close> is filled with.\<close>

definition query_Query ::
  "codec \<Rightarrow> ('v, 'it) backend \<Rightarrow> ('v \<Rightarrow> string) \<Rightarrow> 'v \<Rightarrow> node \<Rightarrow> conn \<Rightarrow> (error option \<times> conn) option" where
  "query_Query K B fmt_v vnil n c =
     (case session_Query B n of
        Inl err \<Rightarrow> Some (conn_Write c (errMsg K err))
      | Inr (columns, it) \<Rightarrow>
          (let cols = map Column columns in
           case conn_Write c (rowDescriptionMsg K cols) of
             (Some err, c1) \<Rightarrow> Some (Some err, c1)
           | (None, c1) \<Rightarrow>
               query_rows K fmt_v (rows_Next B) it
                 (replicate (length cols) vnil) (replicate (length cols) []) 0 c1))"

text \<open>\<open>tagger.Tag\<close>, applied to the outcome of \<open>RowsAffected\<close> and the node.\<close>

definition tagger_Tag :: "error + 64 word \<Rightarrow> node \<Rightarrow> error + string" where
  "tagger_Tag rowsAffected n =
     (case rowsAffected of
        Inl err \<Rightarrow> Inl err
      | Inr affected \<Rightarrow>
          (let tag =
             (case node_type n of
                InsertStmt \<Rightarrow> ''INSERT 0''
              | CreateTableAsStmt \<Rightarrow> ''SELECT''
              | DeleteStmt \<Rightarrow> ''DELETE''
              | FetchStmt \<Rightarrow> ''FETCH''
              | CopyStmt \<Rightarrow> ''COPY''
              | UpdateStmt \<Rightarrow> ''UPDATE''
              | _ \<Rightarrow> ''UPDATE'')
           in Inr (tag @ '' '' @ fmt_d (sint affected))))"

text \<open>\<open>Exec\<close>: the result's own \<open>Tag\<close> if it has one, that of a \<open>tagger\<close> otherwise.\<close>

definition query_Exec ::
  "codec \<Rightarrow> ('v, 'it) backend \<Rightarrow> node \<Rightarrow> conn \<Rightarrow> error option \<times> conn" where
  "query_Exec K B n c =
     (case session_Exec B n of
        Inl err \<Rightarrow> conn_Write c (errMsg K err)
      | Inr res \<Rightarrow>
          (case (case res of ResultTag t \<Rightarrow> t | DriverResult ra \<Rightarrow> tagger_Tag ra n) of
             Inl err \<Rightarrow> conn_Write c (errMsg K err)
           | Inr tag \<Rightarrow> conn_Write c (completeMsg K tag)))"

text \<open>
  \<open>Run\<close>: \<open>parse\<close> is \<open>parser.Parse\<close>, a collaborator. The loop over the
  statements ends at the first statement whose \<open>Query\<close> or \<open>Exec\<close> returns an
  error, with one more error message.
\<close>

fun run_statements ::
  "codec \<Rightarrow> ('v, 'it) backend \<Rightarrow> ('v \<Rightarrow> string) \<Rightarrow> 'v \<Rightarrow> node list \<Rightarrow> conn \<Rightarrow> (error option \<times> conn) option" where
  "run_statements K B fmt_v vnil [] c = Some (None, c)"
| "run_statements K B fmt_v vnil (stmt # stmts) c =
     (case (case node_type stmt of
              VariableShowStmt \<Rightarrow> query_Query K B fmt_v vnil stmt c
            | SelectStmt \<Rightarrow> query_Query K B fmt_v vnil stmt c
            | _ \<Rightarrow> Some (query_Exec K B stmt c)) of
        None \<Rightarrow> None
      | Some (Some err, c') \<Rightarrow> Some (conn_Write c' (errMsg K err))
      | Some (None, c') \<Rightarrow> run_statements K B fmt_v vnil stmts c')"

definition query_Run ::
  "codec \<Rightarrow> (string \<Rightarrow> error + node list) \<Rightarrow> ('v, 'it) backend \<Rightarrow> ('v \<Rightarrow> string) \<Rightarrow> 'v \<Rightarrow>
   string \<Rightarrow> conn \<Rightarrow> (error option \<times> conn) option" where
  "query_Run K parse B fmt_v vnil sql c =
     (case parse sql of
        Inl err \<Rightarrow> Some (conn_Write c (errMsg K err))
      | Inr statements \<Rightarrow> run_statements K B fmt_v vnil statements c)"

text \<open>
  A finite row iterator: from state \<open>it\<close> and with the destination \<open>row\<close>, the calls
  of \<open>Next\<close> deliver the rows \<open>rs\<close> in order, each of the width of the
  destination, and then \<open>io.EOF\<close>.
\<close>

fun yields ::
  "('it \<Rightarrow> 'v list \<Rightarrow> error option \<times> 'v list \<times> 'it) \<Rightarrow> 'it \<Rightarrow> 'v list \<Rightarrow> 'v list list \<Rightarrow> bool" where
  "yields nxt it row [] \<longleftrightarrow> fst (nxt it row) = Some EOF"
| "yields nxt it row (r # rs) \<longleftrightarrow>
     (case nxt it row of
        (None, row', it') \<Rightarrow> row' = r \<and> length r = length row \<and> yields nxt it' r rs
      | (Some err, row', it') \<Rightarrow> False)"

text \<open>Every coming write on the connection succeeds.\<close>

definition writes_succeed :: "conn \<Rightarrow> bool" where
  "writes_succeed c \<longleftrightarrow> list_all (\<lambda>r. r = None) (write_results c)"

section \<open>Concrete collaborators\<close>

text \<open>
  Instances of the parameters of the model, for its use at concrete inputs.
\<close>

subsection \<open>MD5\<close>

text \<open>
  The hash function of RFC 1321, the function that \<open>md5.Sum\<close> computes: the table
  of the sines, the shift amounts, the padding to a multiple of 64 bytes with the
  length in bits, and 64 steps on every block of sixteen little-endian words.
\<close>

definition md5_K :: "32 word list" where
  "md5_K =
     [0xd76aa478, 0xe8c7b756, 0x242070db, 0xc1bdceee, 0xf57c0faf, 0x4787c62a,
      0xa8304613, 0xfd469501, 0x698098d8, 0x8b44f7af, 0xffff5bb1, 0x895cd7be,
      0x6b901122, 0xfd987193, 0xa679438e, 0x49b40821, 0xf61e2562, 0xc040b340,
      0x265e5a51, 0xe9b6c7aa, 0xd62f105d, 0x02441453, 0xd8a1e681, 0xe7d3fbc8,
      0x21e1cde6, 0xc33707d6, 0xf4d50d87, 0x455a14ed, 0xa9e3e905, 0xfcefa3f8,
      0x676f02d9, 0x8d2a4c8a, 0xfffa3942, 0x8771f681, 0x6d9d6122, 0xfde5380c,
      0xa4beea44, 0x4bdecfa9, 0xf6bb4b60, 0xbebfbc70, 0x289b7ec6, 0xeaa127fa,
      0xd4ef3085, 0x04881d05, 0xd9d4d039, 0xe6db99e5, 0x1fa27cf8, 0xc4ac5665,
      0xf4292244, 0x432aff97, 0xab9423a7, 0xfc93a039, 0x655b59c3, 0x8f0ccc92,
      0xffeff47d, 0x85845dd1, 0x6fa87e4f, 0xfe2ce6e0, 0xa3014314, 0x4e0811a1,
      0xf7537e82, 0xbd3af235, 0x2ad7d2bb, 0xeb86d391]"

definition md5_s :: "nat list" where
  "md5_s =
     [7, 12, 17, 22, 7, 12, 17, 22, 7, 12, 17, 22, 7, 12, 17, 22,
      5, 9, 14, 20, 5, 9, 14, 20, 5, 9, 14, 20, 5, 9, 14, 20,
      4, 11, 16, 23, 4, 11, 16, 23, 4, 11, 16, 23, 4, 11, 16, 23,
      6, 10, 15, 21, 6, 10, 15, 21, 6, 10, 15, 21, 6, 10, 15, 21]"

definition md5_pad :: "byte list \<Rightarrow> byte list" where
  "md5_pad bs =
     bs @ [0x80] @ replicate ((119 - length bs mod 64) mod 64) 0 @
     map (\<lambda>i. ucast (drop_bit (8 * i) (of_nat (8 * length bs) :: 64 word))) [0..<8]"

definition le32 :: "byte list \<Rightarrow> 32 word" where
  "le32 bs = foldr (\<lambda>b w. ucast b OR push_bit 8 w) bs 0"

fun chunks :: "nat \<Rightarrow> nat \<Rightarrow> 'a list \<Rightarrow> 'a list list" where
  "chunks 0 n xs = []"
| "chunks (Suc k) n xs = take n xs # chunks k n (drop n xs)"

definition bytes_le32 :: "32 word \<Rightarrow> byte list" where
  "bytes_le32 w = map (\<lambda>i. ucast (drop_bit (8 * i) w)) [0..<4]"

type_synonym md5_state = "32 word \<times> 32 word \<times> 32 word \<times> 32 word"

definition md5_step :: "32 word list \<Rightarrow> md5_state \<Rightarrow> nat \<Rightarrow> md5_state" where
  "md5_step M st i =
     (case st of (A, B, C, D) \<Rightarrow>
        let (F, g) =
              (if i < 16 then ((B AND C) OR (NOT B AND D), i)
               else if i < 32 then ((D AND B) OR (NOT D AND C), (5 * i + 1) mod 16)
               else if i < 48 then (B XOR C XOR D, (3 * i + 5) mod 16)
               else (C XOR (B OR NOT D), (7 * i) mod 16));
            F' = F + A + md5_K ! i + M ! g
        in (D, B + word_rotl (md5_s ! i) F', B, C))"

definition md5_block :: "md5_state \<Rightarrow> byte list \<Rightarrow> md5_state" where
  "md5_block st block =
     (let M = map le32 (chunks 16 4 block) in
      case st of (a0, b0, c0, d0) \<Rightarrow>
      case foldl (md5_step M) st [0..<64] of (A, B, C, D) \<Rightarrow>
        (a0 + A, b0 + B, c0 + C, d0 + D))"

definition md5_Sum :: "byte list \<Rightarrow> byte list" where
  "md5_Sum bs =
     (let p = md5_pad bs in
      case foldl md5_block (0x67452301, 0xefcdab89, 0x98badcfe, 0x10325476)
             (chunks (length p div 64) 64 p) of
        (a, b, c, d) \<Rightarrow> bytes_le32 a @ bytes_le32 b @ bytes_le32 c @ bytes_le32 d)"

subsection \<open>A codec, values and a backend\<close>

text \<open>
  A codec that writes the type byte of a message and then its text; \<open>Type\<close> reads
  the first byte (spec, 6: type byte, then the 4-byte length).
\<close>

definition first_byte :: "msg \<Rightarrow> byte" where
  "first_byte m = (case m of [] \<Rightarrow> 0 | b # bs \<Rightarrow> b)"

fun error_text :: "error \<Rightarrow> string" where
  "error_text EOF = ''EOF''"
| "error_text (Errorf s) = s"
| "error_text (FromErr e) = error_text e"
| "error_text (WithSeverity e FATAL) = ''FATAL: '' @ error_text e"

definition sample_codec :: codec where
  "sample_codec =
     \<lparr>Type = first_byte,
      errMsg = (\<lambda>e. 0x45 # bytes_of (error_text e)),
      rowDescriptionMsg = (\<lambda>cols. 0x54 # concat (map (\<lambda>c. bytes_of (col_name c) @ [0]) cols)),
      dataRowMsg = (\<lambda>strings. 0x44 # concat (map (\<lambda>s. bytes_of s @ [0]) strings)),
      completeMsg = (\<lambda>tag. 0x43 # bytes_of tag @ [0])\<rparr>"

text \<open>Values of three of the dynamic types of \<open>driver.Value\<close>, and their \<open>%v\<close>.\<close>

datatype sample_value = VNil | VInt int | VString string

fun sample_fmt_v :: "sample_value \<Rightarrow> string" where
  "sample_fmt_v VNil = ''<nil>''"
| "sample_fmt_v (VInt i) = fmt_d i"
| "sample_fmt_v (VString s) = s"

text \<open>
  A backend whose iterator is the list of the rows that remain; it knows one table of
  two rows, answers every other query with an error, and reports 3 affected rows for
  an insert, 0 for a delete and 5 for other commands, but fails on a copy.
\<close>

definition list_Next ::
  "'v list list \<Rightarrow> 'v list \<Rightarrow> error option \<times> 'v list \<times> 'v list list" where
  "list_Next it dest = (case it of [] \<Rightarrow> (Some EOF, dest, []) | r # rs \<Rightarrow> (None, r, rs))"

definition sample_backend :: "(sample_value, sample_value list list) backend" where
  "sample_backend =
     \<lparr>session_Query = (\<lambda>n.
        if node_body n = ''SELECT id, name FROM t''
        then Inr ([''id'', ''name''], [[VInt 1, VString ''a''], [VInt 2, VString ''b'']])
        else if node_body n = ''SELECT id, name FROM t WHERE false''
        then Inr ([''id'', ''name''], [])
        else Inl (Errorf ''relation does not exist'')),
      rows_Next = list_Next,
      session_Exec = (\<lambda>n.
        case node_type n of
          InsertStmt \<Rightarrow> Inr (DriverResult (Inr 3))
        | DeleteStmt \<Rightarrow> Inr (DriverResult (Inr 0))
        | CopyStmt \<Rightarrow> Inl (Errorf ''permission denied'')
        | _ \<Rightarrow> Inr (DriverResult (Inr 5)))\<rparr>"

text \<open>A connection on which nothing was written yet, with the reads \<open>rs\<close> to come.\<close>

definition fresh_conn :: "(error + msg) list \<Rightarrow> conn" where
  "fresh_conn rs = \<lparr>sent = [], write_results = [], read_results = rs\<rparr>"

section \<open>Properties of the transaction buffer\<close>

lemma transaction_Write_poisoned:
  "poisoned Ty t \<Longrightarrow> transaction_Write Ty t m = (None, t)"
  by (auto simp add: poisoned_def transaction_Write_def last_conv_nth)

lemma transaction_Write_makes_poisoned:
  "Ty e = 0x45 \<Longrightarrow> poisoned Ty (snd (transaction_Write Ty t e))"
  by (auto simp add: poisoned_def transaction_Write_def last_conv_nth)

lemma conn_Write_sent:
  "conn_Write c m = (r, c') \<Longrightarrow> sent c' = (if r = None then sent c @ [m] else sent c)"
  by (auto simp add: conn_Write_def split: list.splits option.splits)

lemma flush_loop_split:
  "flush_loop c out = (err, c', rest) \<Longrightarrow>
     \<exists>written ck. out = written @ rest \<and> write_all c written = Some ck \<and>
       sent c' = sent c @ written \<and>
       (case err of None \<Rightarrow> rest = [] \<and> c' = ck
        | Some e \<Rightarrow> rest \<noteq> [] \<and> conn_Write ck (hd rest) = (Some e, c'))"
proof (induction out arbitrary: c)
  case Nil
  then show ?case by auto
next
  case (Cons m ms)
  obtain r c1 where w: "conn_Write c m = (r, c1)" by (cases "conn_Write c m")
  show ?case
  proof (cases r)
    case None
    with w Cons.prems have "flush_loop c1 ms = (err, c', rest)" by simp
    from Cons.IH [OF this] obtain written ck where
      h: "ms = written @ rest" "write_all c1 written = Some ck" "sent c' = sent c1 @ written"
         "case err of None \<Rightarrow> rest = [] \<and> c' = ck
          | Some e \<Rightarrow> rest \<noteq> [] \<and> conn_Write ck (hd rest) = (Some e, c')"
      by blast
    from w None have s: "sent c1 = sent c @ [m]" by (simp add: conn_Write_sent)
    show ?thesis
      apply (rule exI [of _ "m # written"])
      apply (rule exI [of _ ck])
      using h s w None by simp
  next
    case (Some e)
    with w Cons.prems have "err = Some e" "c' = c1" "rest = m # ms" by simp_all
    moreover from w Some have "sent c1 = sent c" by (simp add: conn_Write_sent)
    ultimately show ?thesis
      apply -
      apply (rule exI [of _ "[]"])
      apply (rule exI [of _ c])
      using w Some by simp
  qed
qed

lemma flush_poisoned:
  assumes "poisoned Ty t" and "t_out (snd (transaction_flush t)) \<noteq> []"
  shows "poisoned Ty (snd (transaction_flush t))"
proof -
  obtain err c' rest where f: "flush_loop (t_p t) (t_out t) = (err, c', rest)"
    by (cases "flush_loop (t_p t) (t_out t)")
  then obtain written where "t_out t = written @ rest"
    using flush_loop_split by blast
  moreover from f assms(2) have "rest \<noteq> []" by (simp add: transaction_flush_def)
  ultimately have "last (t_out t) = last rest" by simp
  with assms f \<open>rest \<noteq> []\<close> show ?thesis
    by (simp add: poisoned_def transaction_flush_def)
qed

lemma run_ops_poisoned:
  "poisoned Ty t \<Longrightarrow> \<forall>k \<le> length ops. t_out (run_ops Ty t (take k ops)) \<noteq> [] \<Longrightarrow>
   poisoned Ty (run_ops Ty t ops)"
proof (induction ops arbitrary: t)
  case Nil
  then show ?case by (simp add: run_ops_def)
next
  case (Cons x ops)
  from Cons.prems(2) have "t_out (run_ops Ty t (take 1 (x # ops))) \<noteq> []"
    by (metis One_nat_def Suc_leI length_Cons zero_less_Suc)
  then have ne: "t_out (apply_op Ty t x) \<noteq> []" by (simp add: run_ops_def)
  have p: "poisoned Ty (apply_op Ty t x)"
  proof (cases x)
    case (Enqueue m)
    with Cons.prems(1) show ?thesis by (simp add: transaction_Write_poisoned)
  next
    case Flush
    with Cons.prems(1) ne show ?thesis by (simp add: flush_poisoned)
  qed
  have "\<forall>k \<le> length ops. t_out (run_ops Ty (apply_op Ty t x) (take k ops)) \<noteq> []"
  proof (intro allI impI)
    fix k assume "k \<le> length ops"
    then have "Suc k \<le> length (x # ops)" by simp
    with Cons.prems(2) have "t_out (run_ops Ty t (take (Suc k) (x # ops))) \<noteq> []" by blast
    then show "t_out (run_ops Ty (apply_op Ty t x) (take k ops)) \<noteq> []"
      by (simp add: run_ops_def)
  qed
  from Cons.IH [OF p this] show ?case by (simp add: run_ops_def)
qed

text \<open>
  Claim C3, as amended. After an error message (type \<open>'E'\<close>) has been handed to
  \<open>Write\<close>, and for every sequence of later enqueue and flush operations that never
  leaves the outgoing queue empty (no flush has written the queue out to its end), a
  further call of \<open>Write\<close> returns \<open>nil\<close> and leaves the buffer, and so the length
  of its outgoing queue, unchanged.
\<close>

theorem poison_until_drained:
  assumes "Ty e = 0x45"
    and "\<forall>k \<le> length ops.
           t_out (run_ops Ty (snd (transaction_Write Ty t e)) (take k ops)) \<noteq> []"
  shows "transaction_Write Ty (run_ops Ty (snd (transaction_Write Ty t e)) ops) m =
           (None, run_ops Ty (snd (transaction_Write Ty t e)) ops)"
  using assms
  by (intro transaction_Write_poisoned run_ops_poisoned transaction_Write_makes_poisoned)

text \<open>
  Claim C10. \<open>Write\<close> on the transaction buffer returns \<open>nil\<close> for every buffer
  state and every message, whether the message is queued or dropped.
\<close>

theorem transaction_Write_never_fails: "fst (transaction_Write Ty t m) = None"
  by (simp add: transaction_Write_def)


text \<open>
  Claim C4. \<open>flush\<close> splits the queue into a prefix \<open>written\<close> and the queue
  that remains: the messages of the prefix were written with success, in queue order
  (they are what was added to the log of the connection), and either no error is
  returned and nothing remains, or the returned error is the failure of writing the
  first remaining message, which is still queued with all messages after it.
\<close>

theorem flush_fifo_stops_at_first_failure:
  assumes "transaction_flush t = (err, t')"
  shows "\<exists>written ck. t_out t = written @ t_out t' \<and>
           write_all (t_p t) written = Some ck \<and>
           sent (t_p t') = sent (t_p t) @ written \<and>
           (case err of None \<Rightarrow> t_out t' = [] \<and> t_p t' = ck
            | Some e \<Rightarrow> t_out t' \<noteq> [] \<and>
                conn_Write ck (hd (t_out t')) = (Some e, t_p t'))"
proof -
  obtain c' rest where f: "flush_loop (t_p t) (t_out t) = (err, c', rest)"
    using assms by (auto simp: transaction_flush_def split: prod.splits)
  with assms have "t_out t' = rest" "t_p t' = c'"
    by (auto simp: transaction_flush_def)
  with flush_loop_split [OF f] show ?thesis by (simp cong: option.case_cong)
qed

text \<open>
  The queue \<open>[A, B, C]\<close> on a connection whose second write fails: \<open>[B, C]\<close>
  remains and the error of writing \<open>B\<close> is returned.
\<close>

theorem flush_fifo_witness:
  "transaction_flush
     \<lparr>t_p = \<lparr>sent = [], write_results = [None, Some (Errorf ''broken pipe'')], read_results = []\<rparr>,
      t_in = [], t_out = [[0x41], [0x42], [0x43]]\<rparr>
   = (Some (Errorf ''broken pipe''),
      \<lparr>t_p = \<lparr>sent = [[0x41]], write_results = [], read_results = []\<rparr>,
       t_in = [], t_out = [[0x42], [0x43]]\<rparr>) \<and>
   (\<exists>written ck. [[0x41], [0x42], [0x43 :: byte]] = written @ [[0x42], [0x43]] \<and>
      write_all \<lparr>sent = [], write_results = [None, Some (Errorf ''broken pipe'')], read_results = []\<rparr> written = Some ck \<and>
      [[0x41 :: byte]] = [] @ written \<and>
      conn_Write ck [0x42] = (Some (Errorf ''broken pipe''), \<lparr>sent = [[0x41]], write_results = [], read_results = []\<rparr>))"
proof -
  have h: "transaction_flush
     \<lparr>t_p = \<lparr>sent = [], write_results = [None, Some (Errorf ''broken pipe'')], read_results = []\<rparr>,
      t_in = [], t_out = [[0x41], [0x42], [0x43]]\<rparr>
   = (Some (Errorf ''broken pipe''),
      \<lparr>t_p = \<lparr>sent = [[0x41]], write_results = [], read_results = []\<rparr>,
       t_in = [], t_out = [[0x42], [0x43]]\<rparr>)"
    by (simp add: transaction_flush_def conn_Write_def)
  show ?thesis using h flush_fifo_stops_at_first_failure [OF h] by simp
qed

text \<open>
  Claim C3 as stated fails: an error message is enqueued, a flush writes it out, and
  the next enqueue on the same buffer is not a no-op, the queue grows from 0 to 1.
\<close>

theorem poison_lost_after_flush_counterexample:
  "first_byte [0x45, 0, 0, 0, 4] = 0x45 \<and>
   length (t_out (run_ops first_byte
      \<lparr>t_p = \<lparr>sent = [], write_results = [], read_results = []\<rparr>, t_in = [], t_out = []\<rparr>
      [Enqueue [0x45, 0, 0, 0, 4], Flush, Enqueue [0x44, 0, 0, 0, 4]])) \<noteq>
   length (t_out (run_ops first_byte
      \<lparr>t_p = \<lparr>sent = [], write_results = [], read_results = []\<rparr>, t_in = [], t_out = []\<rparr>
      [Enqueue [0x45, 0, 0, 0, 4], Flush]))"
  by (simp add: run_ops_def first_byte_def transaction_Write_def transaction_flush_def conn_Write_def)

text \<open>
  A buffer holding one message gets an error message, a dropped data message and a
  flush that fails at the error message: the next \<open>Write\<close> changes nothing.
\<close>

theorem poison_until_drained_witness:
  "first_byte [0x45, 0, 0, 0, 4] = 0x45 \<and>
   transaction_Write first_byte
     (run_ops first_byte (snd (transaction_Write first_byte
        \<lparr>t_p = \<lparr>sent = [], write_results = [None, Some (Errorf ''broken pipe'')], read_results = []\<rparr>,
         t_in = [], t_out = [[0x54, 0, 0, 0, 4]]\<rparr> [0x45, 0, 0, 0, 4]))
        [Enqueue [0x44, 0, 0, 0, 4], Flush])
     [0x43, 0, 0, 0, 4] =
   (None, \<lparr>t_p = \<lparr>sent = [[0x54, 0, 0, 0, 4]], write_results = [], read_results = []\<rparr>,
         t_in = [], t_out = [[0x45, 0, 0, 0, 4]]\<rparr>)"
proof -
  have a: "first_byte [0x45, 0, 0, 0, 4] = 0x45" by (simp add: first_byte_def)
  have b: "\<forall>k \<le> length [Enqueue [0x44, 0, 0, 0, 4], Flush].
      t_out (run_ops first_byte (snd (transaction_Write first_byte
        \<lparr>t_p = \<lparr>sent = [], write_results = [None, Some (Errorf ''broken pipe'')], read_results = []\<rparr>,
         t_in = [], t_out = [[0x54, 0, 0, 0, 4]]\<rparr> [0x45, 0, 0, 0, 4]))
        (take k [Enqueue [0x44, 0, 0, 0, 4], Flush])) \<noteq> []"
    by (auto simp: le_Suc_eq run_ops_def first_byte_def transaction_Write_def
          transaction_flush_def conn_Write_def)
  show ?thesis
    using a b poison_until_drained [OF a b, of "[0x43, 0, 0, 0, 4]"]
    by (simp add: run_ops_def first_byte_def transaction_Write_def
          transaction_flush_def conn_Write_def)
qed

section \<open>Properties of the authenticators\<close>

text \<open>The function \<open>md5_Sum\<close> on the test suite of RFC 1321 (A.5).\<close>

lemma md5_Sum_test_suite:
  "fmt_x (md5_Sum []) = ''d41d8cd98f00b204e9800998ecf8427e''"
  "fmt_x (md5_Sum (bytes_of ''a'')) = ''0cc175b9c0f1b6a831c399e269772661''"
  "fmt_x (md5_Sum (bytes_of ''abc'')) = ''900150983cd24fb0d6963f7d28e17f72''"
  "fmt_x (md5_Sum (bytes_of ''message digest'')) = ''f96b697d7cb7938d525a2f31aaf161d0''"
  by code_simp+

lemma extractPassword_eq:
  "extractPassword m = (if 6 \<le> length m then Inr (take (length m - 6) (drop 5 m)) else Inl SliceBoundsOutOfRange)"
  by (auto simp: extractPassword_def go_slice_def nat_diff_distrib' intro: arg_cong2 [where f = take])

text \<open>
  Claim C2. The challenge was written, a response \<open>m\<close> of type \<open>'p'\<close> was read,
  the session names a user, and the provider returns \<open>credential\<close> for that user.
  Then the clear-text authenticator returns \<open>ok = true\<close> exactly when the payload
  extracted from \<open>m\<close> is the credential, byte for byte; it then hands the
  authentication-OK message to \<open>Write\<close> and returns the outcome of that write;
  every other payload is answered with \<open>ok = false\<close> and the error message of a
  mismatch.
\<close>

theorem clearText_accepts_iff_equal:
  assumes "conn_Write rw [0x52, 0, 0, 0, 8, 0, 0, 0, 3] = (None, rw')"
    and "conn_Read rw' = (Inr m, rw'')"
    and "Type K m = 0x70"
    and "args ''user'' = Some (StringArg user)"
    and "getPassword H pp user = (credential, gerr)"
  shows "(accepted (clearTextAuthenticator_authenticate K H pp rw args) \<longleftrightarrow>
            extractPassword m = Inr credential) \<and>
         (extractPassword m = Inr credential \<longrightarrow>
            clearTextAuthenticator_authenticate K H pp rw args =
              (Inr (True, fst (conn_Write rw'' authOKMsg)), snd (conn_Write rw'' authOKMsg))) \<and>
         (\<forall>pw. extractPassword m = Inr pw \<and> pw \<noteq> credential \<longrightarrow>
            clearTextAuthenticator_authenticate K H pp rw args =
              (Inr (False, fst (conn_Write rw''
                 (errMsg K (WithSeverity (FromErr (Errorf (passwordDidNotMatch user))) FATAL)))),
               snd (conn_Write rw''
                 (errMsg K (WithSeverity (FromErr (Errorf (passwordDidNotMatch user))) FATAL)))))"
  using assms
  by (auto simp: clearTextAuthenticator_authenticate_def accepted_def user_arg_def Let_def
      split: sum.splits prod.splits)

text \<open>
  Claim C1. The challenge with the salt was written, a response \<open>m\<close> was read, the
  session names a user, and the provider returns \<open>storedHash\<close> for that user. Then
  the MD5 authenticator returns \<open>ok = true\<close> exactly when \<open>m\<close> has type
  \<open>'p'\<close> and its extracted payload is \<open>"md5"\<close> followed by the hexadecimal MD5 of
  the hexadecimal stored hash followed by the salt; every other payload of a
  \<open>'p'\<close> message is answered with \<open>ok = false\<close>. The salt has 4 bytes, and the
  stored hash of the MD5 provider is the MD5 of the password followed by the user name.
\<close>

theorem md5_accepts_iff_salted_hash:
  assumes "conn_Write rw ([0x52, 0, 0, 0, 12, 0, 0, 0, 5] @ getRandomSalt rnd) = (None, rw')"
    and "conn_Read rw' = (Inr m, rw'')"
    and "args ''user'' = Some (StringArg user)"
    and "getPassword H pp user = (storedHash, gerr)"
  shows "(accepted (md5Authenticator_authenticate K H rnd pp rw args) \<longleftrightarrow>
            Type K m = 0x70 \<and>
            extractPassword m =
              Inr (bytes_of (''md5'' @ fmt_x (H (bytes_of (fmt_x storedHash) @ getRandomSalt rnd))))) \<and>
         (\<forall>payload. Type K m = 0x70 \<and> extractPassword m = Inr payload \<and>
            payload \<noteq> bytes_of (''md5'' @ fmt_x (H (bytes_of (fmt_x storedHash) @ getRandomSalt rnd))) \<longrightarrow>
            md5Authenticator_authenticate K H rnd pp rw args =
              (Inr (False, fst (conn_Write rw''
                 (errMsg K (WithSeverity (FromErr (Errorf (passwordDidNotMatch user))) FATAL)))),
               snd (conn_Write rw''
                 (errMsg K (WithSeverity (FromErr (Errorf (passwordDidNotMatch user))) FATAL))))) \<and>
         length (getRandomSalt rnd) = 4 \<and>
         getPassword H (Md5ConstantPasswordProvider password) user =
           (H (password @ bytes_of user), None)"
  using assms
  by (auto simp: md5Authenticator_authenticate_def accepted_def user_arg_def Let_def
      hashWithSalt_def getRandomSalt_def
      split: sum.splits prod.splits)

lemma expected_neq_mismatch: "expectedPasswordMessage t \<noteq> passwordDidNotMatch user"
  by (simp add: expectedPasswordMessage_def passwordDidNotMatch_def)

text \<open>
  Claim C8. When the response that was read has a type other than \<open>'p'\<close>, both
  authenticators return \<open>ok = false\<close> after handing to \<open>Write\<close> an error of
  severity \<open>FATAL\<close> whose text names the type that was received, whatever the
  provider and the session arguments are (they are not consulted); that text differs
  from the text of a credential mismatch for every user.
\<close>

theorem wrong_type_is_protocol_violation:
  assumes "Type K m \<noteq> 0x70" and "conn_Read rw' = (Inr m, rw'')"
  shows "(conn_Write rw [0x52, 0, 0, 0, 8, 0, 0, 0, 3] = (None, rw') \<longrightarrow>
            clearTextAuthenticator_authenticate K H pp rw args =
              (Inr (False, fst (conn_Write rw''
                 (errMsg K (WithSeverity (FromErr (Errorf (expectedPasswordMessage (Type K m)))) FATAL)))),
               snd (conn_Write rw''
                 (errMsg K (WithSeverity (FromErr (Errorf (expectedPasswordMessage (Type K m)))) FATAL))))) \<and>
         (conn_Write rw ([0x52, 0, 0, 0, 12, 0, 0, 0, 5] @ getRandomSalt rnd) = (None, rw') \<longrightarrow>
            md5Authenticator_authenticate K H rnd pp rw args =
              (Inr (False, fst (conn_Write rw''
                 (errMsg K (WithSeverity (FromErr (Errorf (expectedPasswordMessage (Type K m)))) FATAL)))),
               snd (conn_Write rw''
                 (errMsg K (WithSeverity (FromErr (Errorf (expectedPasswordMessage (Type K m)))) FATAL))))) \<and>
         expectedPasswordMessage (Type K m) =
           ''expected password response, got message type '' @ fmt_c (Type K m) \<and>
         expectedPasswordMessage (Type K m) \<noteq> passwordDidNotMatch user"
proof (intro conjI impI)
  assume "conn_Write rw [0x52, 0, 0, 0, 8, 0, 0, 0, 3] = (None, rw')"
  with assms show "clearTextAuthenticator_authenticate K H pp rw args =
      (Inr (False, fst (conn_Write rw''
         (errMsg K (WithSeverity (FromErr (Errorf (expectedPasswordMessage (Type K m)))) FATAL)))),
       snd (conn_Write rw''
         (errMsg K (WithSeverity (FromErr (Errorf (expectedPasswordMessage (Type K m)))) FATAL))))"
    by (simp add: clearTextAuthenticator_authenticate_def Let_def split: prod.splits)
next
  assume "conn_Write rw ([0x52, 0, 0, 0, 12, 0, 0, 0, 5] @ getRandomSalt rnd) = (None, rw')"
  with assms show "md5Authenticator_authenticate K H rnd pp rw args =
      (Inr (False, fst (conn_Write rw''
         (errMsg K (WithSeverity (FromErr (Errorf (expectedPasswordMessage (Type K m)))) FATAL)))),
       snd (conn_Write rw''
         (errMsg K (WithSeverity (FromErr (Errorf (expectedPasswordMessage (Type K m)))) FATAL))))"
    by (simp add: md5Authenticator_authenticate_def Let_def split: prod.splits)
next
  show "expectedPasswordMessage (Type K m) =
      ''expected password response, got message type '' @ fmt_c (Type K m)"
    by (simp add: expectedPasswordMessage_def)
next
  show "expectedPasswordMessage (Type K m) \<noteq> passwordDidNotMatch user"
    by (rule expected_neq_mismatch)
qed

text \<open>
  Claim C9. \<open>extractPassword\<close> is out of range exactly on the messages shorter than
  6 bytes, and on the others it returns the bytes from offset 5 up to the last byte
  exclusive; both password authenticators panic with that slice error on a
  \<open>'p'\<close> message shorter than 6 bytes.
\<close>

theorem extractPassword_needs_six_bytes:
  "(extractPassword m = Inl SliceBoundsOutOfRange \<longleftrightarrow> length m < 6) \<and>
   (6 \<le> length m \<longrightarrow> extractPassword m = Inr (take (length m - 6) (drop 5 m))) \<and>
   (Type K m = 0x70 \<and> length m < 6 \<and> conn_Read rw' = (Inr m, rw'') \<and>
    args ''user'' = Some (StringArg user) \<longrightarrow>
      (conn_Write rw [0x52, 0, 0, 0, 8, 0, 0, 0, 3] = (None, rw') \<longrightarrow>
         clearTextAuthenticator_authenticate K H pp rw args = (Inl SliceBoundsOutOfRange, rw'')) \<and>
      (conn_Write rw ([0x52, 0, 0, 0, 12, 0, 0, 0, 5] @ getRandomSalt rnd) = (None, rw') \<longrightarrow>
         md5Authenticator_authenticate K H rnd pp rw args = (Inl SliceBoundsOutOfRange, rw'')))"
  by (auto simp: extractPassword_eq clearTextAuthenticator_authenticate_def
      md5Authenticator_authenticate_def user_arg_def Let_def
      split: sum.splits prod.splits)


text \<open>
  User \<open>bob\<close> with password \<open>secret\<close> and the salt \<open>01 02 03 04\<close>: the response
  that carries the salted hash is accepted, one that carries another hash is not.
\<close>

lemma md5_sample_payload:
  "extractPassword (0x70 # [0, 0, 0, 40] @ bytes_of ''md5f21dfe33ff3a9e03dbc3e008251fe5cc'' @ [0]) =
     Inr (bytes_of (''md5'' @ fmt_x (md5_Sum (bytes_of (fmt_x (md5_Sum (bytes_of ''secret'' @ bytes_of ''bob''))) @ getRandomSalt [1, 2, 3, 4]))))"
  by code_simp

lemma md5_sample_bad_payload:
  "extractPassword (0x70 # [0, 0, 0, 40] @ bytes_of ''md500000000000000000000000000000000'' @ [0]) \<noteq>
     Inr (bytes_of (''md5'' @ fmt_x (md5_Sum (bytes_of (fmt_x (md5_Sum (bytes_of ''secret'' @ bytes_of ''bob''))) @ getRandomSalt [1, 2, 3, 4]))))"
  by code_simp

theorem md5_accepts_iff_salted_hash_witness:
  "accepted (md5Authenticator_authenticate sample_codec md5_Sum [1, 2, 3, 4]
     (Md5ConstantPasswordProvider (bytes_of ''secret''))
     (fresh_conn [Inr (0x70 # [0, 0, 0, 40] @ bytes_of ''md5f21dfe33ff3a9e03dbc3e008251fe5cc'' @ [0])])
     [''user'' \<mapsto> StringArg ''bob'']) \<and>
   \<not> accepted (md5Authenticator_authenticate sample_codec md5_Sum [1, 2, 3, 4]
     (Md5ConstantPasswordProvider (bytes_of ''secret''))
     (fresh_conn [Inr (0x70 # [0, 0, 0, 40] @ bytes_of ''md500000000000000000000000000000000'' @ [0])])
     [''user'' \<mapsto> StringArg ''bob''])"
proof -
  let ?m = "0x70 # [0, 0, 0, 40] @ bytes_of ''md5f21dfe33ff3a9e03dbc3e008251fe5cc'' @ [0]"
  let ?b = "0x70 # [0, 0, 0, 40] @ bytes_of ''md500000000000000000000000000000000'' @ [0]"
  let ?args = "[''user'' \<mapsto> StringArg ''bob'']"
  have w: "conn_Write (fresh_conn [Inr m]) ([0x52, 0, 0, 0, 12, 0, 0, 0, 5] @ getRandomSalt [1, 2, 3, 4]) =
      (None, \<lparr>sent = [[0x52, 0, 0, 0, 12, 0, 0, 0, 5, 1, 2, 3, 4]], write_results = [], read_results = [Inr m]\<rparr>)" for m
    by (simp add: conn_Write_def fresh_conn_def getRandomSalt_def)
  have r: "conn_Read \<lparr>sent = [[0x52, 0, 0, 0, 12, 0, 0, 0, 5, 1, 2, 3, 4]], write_results = [], read_results = [Inr m]\<rparr> =
      (Inr m, \<lparr>sent = [[0x52, 0, 0, 0, 12, 0, 0, 0, 5, 1, 2, 3, 4]], write_results = [], read_results = []\<rparr>)" for m
    by (simp add: conn_Read_def)
  have u: "?args ''user'' = Some (StringArg ''bob'')" by simp
  have g: "getPassword md5_Sum (Md5ConstantPasswordProvider (bytes_of ''secret'')) ''bob'' =
      (md5_Sum (bytes_of ''secret'' @ bytes_of ''bob''), None)"
    by (simp add: Let_def)
  have t: "Type sample_codec ?m = 0x70" "Type sample_codec ?b = 0x70"
    by (simp_all add: sample_codec_def first_byte_def)
  from md5_accepts_iff_salted_hash [where K = sample_codec and H = md5_Sum
      and rnd = "[1, 2, 3, 4]" and pp = "Md5ConstantPasswordProvider (bytes_of ''secret'')"
      and args = ?args and user = "''bob''" and gerr = None
      and storedHash = "md5_Sum (bytes_of ''secret'' @ bytes_of ''bob'')"
      and rw' = "\<lparr>sent = [[0x52, 0, 0, 0, 12, 0, 0, 0, 5, 1, 2, 3, 4]], write_results = [], read_results = [Inr ?m]\<rparr>"
      and rw'' = "\<lparr>sent = [[0x52, 0, 0, 0, 12, 0, 0, 0, 5, 1, 2, 3, 4]], write_results = [], read_results = []\<rparr>"
      and rw = "fresh_conn [Inr ?m]" and m = ?m, OF w r u g] t(1) md5_sample_payload
  have a: "accepted (md5Authenticator_authenticate sample_codec md5_Sum [1, 2, 3, 4]
     (Md5ConstantPasswordProvider (bytes_of ''secret'')) (fresh_conn [Inr ?m]) ?args)"
    by blast
  from md5_accepts_iff_salted_hash [where K = sample_codec and H = md5_Sum
      and rnd = "[1, 2, 3, 4]" and pp = "Md5ConstantPasswordProvider (bytes_of ''secret'')"
      and args = ?args and user = "''bob''" and gerr = None
      and storedHash = "md5_Sum (bytes_of ''secret'' @ bytes_of ''bob'')"
      and rw' = "\<lparr>sent = [[0x52, 0, 0, 0, 12, 0, 0, 0, 5, 1, 2, 3, 4]], write_results = [], read_results = [Inr ?b]\<rparr>"
      and rw'' = "\<lparr>sent = [[0x52, 0, 0, 0, 12, 0, 0, 0, 5, 1, 2, 3, 4]], write_results = [], read_results = []\<rparr>"
      and rw = "fresh_conn [Inr ?b]" and m = ?b, OF w r u g] md5_sample_bad_payload
  have b: "\<not> accepted (md5Authenticator_authenticate sample_codec md5_Sum [1, 2, 3, 4]
     (Md5ConstantPasswordProvider (bytes_of ''secret'')) (fresh_conn [Inr ?b]) ?args)"
    by blast
  from a b show ?thesis by (rule conjI)
qed

text \<open>
  The empty password against the empty credential is accepted and answered with the
  authentication-OK message; the password \<open>x\<close> is not accepted.
\<close>

theorem clearText_accepts_iff_equal_witness:
  "accepted (clearTextAuthenticator_authenticate sample_codec md5_Sum (ConstantPasswordProvider [])
     (fresh_conn [Inr [0x70, 0, 0, 0, 5, 0]]) [''user'' \<mapsto> StringArg ''bob'']) \<and>
   clearTextAuthenticator_authenticate sample_codec md5_Sum (ConstantPasswordProvider [])
     (fresh_conn [Inr [0x70, 0, 0, 0, 5, 0]]) [''user'' \<mapsto> StringArg ''bob''] =
     (Inr (True, None),
      \<lparr>sent = [[0x52, 0, 0, 0, 8, 0, 0, 0, 3], [0x52, 0, 0, 0, 8, 0, 0, 0, 0]],
       write_results = [], read_results = []\<rparr>) \<and>
   \<not> accepted (clearTextAuthenticator_authenticate sample_codec md5_Sum (ConstantPasswordProvider [])
     (fresh_conn [Inr [0x70, 0, 0, 0, 6, 0x78, 0]]) [''user'' \<mapsto> StringArg ''bob''])"
proof -
  let ?m = "[0x70, 0, 0, 0, 5, 0] :: msg"
  let ?b = "[0x70, 0, 0, 0, 6, 0x78, 0] :: msg"
  let ?args = "[''user'' \<mapsto> StringArg ''bob'']"
  have w: "conn_Write (fresh_conn [Inr m]) [0x52, 0, 0, 0, 8, 0, 0, 0, 3] =
      (None, \<lparr>sent = [[0x52, 0, 0, 0, 8, 0, 0, 0, 3]], write_results = [], read_results = [Inr m]\<rparr>)" for m
    by (simp add: conn_Write_def fresh_conn_def)
  have r: "conn_Read \<lparr>sent = [[0x52, 0, 0, 0, 8, 0, 0, 0, 3]], write_results = [], read_results = [Inr m]\<rparr> =
      (Inr m, \<lparr>sent = [[0x52, 0, 0, 0, 8, 0, 0, 0, 3]], write_results = [], read_results = []\<rparr>)" for m
    by (simp add: conn_Read_def)
  have u: "?args ''user'' = Some (StringArg ''bob'')" by simp
  have g: "getPassword md5_Sum (ConstantPasswordProvider []) ''bob'' = ([], None)" by simp
  have t: "Type sample_codec [0x70, 0, 0, 0, 5, 0] = 0x70"
    "Type sample_codec [0x70, 0, 0, 0, 6, 0x78, 0] = 0x70"
    by (simp_all add: sample_codec_def first_byte_def)
  have e: "extractPassword [0x70, 0, 0, 0, 5, 0] = Inr []"
    "extractPassword [0x70, 0, 0, 0, 6, 0x78, 0] \<noteq> Inr []"
    by (simp_all add: extractPassword_eq)
  show ?thesis
    using clearText_accepts_iff_equal [where K = sample_codec and H = md5_Sum
      and pp = "ConstantPasswordProvider []" and args = ?args and user = "''bob''"
      and gerr = None and credential = "[]"
      and rw' = "\<lparr>sent = [[0x52, 0, 0, 0, 8, 0, 0, 0, 3]], write_results = [], read_results = [Inr ?m]\<rparr>"
      and rw'' = "\<lparr>sent = [[0x52, 0, 0, 0, 8, 0, 0, 0, 3]], write_results = [], read_results = []\<rparr>"
      and rw = "fresh_conn [Inr ?m]" and m = ?m, OF w r t(1) u g]
      clearText_accepts_iff_equal [where K = sample_codec and H = md5_Sum
      and pp = "ConstantPasswordProvider []" and args = ?args and user = "''bob''"
      and gerr = None and credential = "[]"
      and rw' = "\<lparr>sent = [[0x52, 0, 0, 0, 8, 0, 0, 0, 3]], write_results = [], read_results = [Inr ?b]\<rparr>"
      and rw'' = "\<lparr>sent = [[0x52, 0, 0, 0, 8, 0, 0, 0, 3]], write_results = [], read_results = []\<rparr>"
      and rw = "fresh_conn [Inr ?b]" and m = ?b, OF w r t(2) u g] e
    by (simp add: conn_Write_def authOKMsg_def accepted_def)
qed

text \<open>A query message (type \<open>'Q'\<close>) in place of the password response.\<close>

theorem wrong_type_is_protocol_violation_witness:
  "clearTextAuthenticator_authenticate sample_codec md5_Sum (ConstantPasswordProvider [])
     (fresh_conn [Inr [0x51, 0, 0, 0, 4]]) Map.empty =
     (Inr (False, None),
      \<lparr>sent = [[0x52, 0, 0, 0, 8, 0, 0, 0, 3],
               0x45 # bytes_of ''FATAL: expected password response, got message type Q''],
       write_results = [], read_results = []\<rparr>) \<and>
   md5Authenticator_authenticate sample_codec md5_Sum [1, 2, 3, 4] (ConstantPasswordProvider [])
     (fresh_conn [Inr [0x51, 0, 0, 0, 4]]) Map.empty =
     (Inr (False, None),
      \<lparr>sent = [[0x52, 0, 0, 0, 12, 0, 0, 0, 5, 1, 2, 3, 4],
               0x45 # bytes_of ''FATAL: expected password response, got message type Q''],
       write_results = [], read_results = []\<rparr>)"
proof -
  let ?m = "[0x51, 0, 0, 0, 4] :: msg"
  have t: "Type sample_codec ?m \<noteq> 0x70" by (simp add: sample_codec_def first_byte_def)
  have w1: "conn_Write (fresh_conn [Inr ?m]) [0x52, 0, 0, 0, 8, 0, 0, 0, 3] =
      (None, \<lparr>sent = [[0x52, 0, 0, 0, 8, 0, 0, 0, 3]], write_results = [], read_results = [Inr ?m]\<rparr>)"
    by (simp add: conn_Write_def fresh_conn_def)
  have r1: "conn_Read \<lparr>sent = [[0x52, 0, 0, 0, 8, 0, 0, 0, 3]], write_results = [], read_results = [Inr ?m]\<rparr> =
      (Inr ?m, \<lparr>sent = [[0x52, 0, 0, 0, 8, 0, 0, 0, 3]], write_results = [], read_results = []\<rparr>)"
    by (simp add: conn_Read_def)
  have w2: "conn_Write (fresh_conn [Inr ?m]) ([0x52, 0, 0, 0, 12, 0, 0, 0, 5] @ getRandomSalt [1, 2, 3, 4]) =
      (None, \<lparr>sent = [[0x52, 0, 0, 0, 12, 0, 0, 0, 5, 1, 2, 3, 4]], write_results = [], read_results = [Inr ?m]\<rparr>)"
    by (simp add: conn_Write_def fresh_conn_def getRandomSalt_def)
  have r2: "conn_Read \<lparr>sent = [[0x52, 0, 0, 0, 12, 0, 0, 0, 5, 1, 2, 3, 4]], write_results = [], read_results = [Inr ?m]\<rparr> =
      (Inr ?m, \<lparr>sent = [[0x52, 0, 0, 0, 12, 0, 0, 0, 5, 1, 2, 3, 4]], write_results = [], read_results = []\<rparr>)"
    by (simp add: conn_Read_def)
  have f: "fmt_c 0x51 = ''Q''" by code_simp
  have ty: "Type sample_codec ?m = 0x51" by (simp add: sample_codec_def first_byte_def)
  have em: "errMsg sample_codec e = 0x45 # bytes_of (error_text e)" for e
    by (simp add: sample_codec_def)
  show ?thesis
    using wrong_type_is_protocol_violation [OF t r1, where rw = "fresh_conn [Inr ?m]"
        and H = md5_Sum and pp = "ConstantPasswordProvider []" and args = Map.empty]
      wrong_type_is_protocol_violation [OF t r2, where rw = "fresh_conn [Inr ?m]"
        and rnd = "[1, 2, 3, 4]" and H = md5_Sum and pp = "ConstantPasswordProvider []"
        and args = Map.empty]
      w1 w2
    by (simp add: ty f em expectedPasswordMessage_def conn_Write_def bytes_of_def)
qed

text \<open>A password response of 5 bytes, and one of 7 bytes with the password \<open>x\<close>.\<close>

theorem extractPassword_needs_six_bytes_witness:
  "extractPassword [0x70, 0, 0, 0, 4] = Inl SliceBoundsOutOfRange \<and>
   extractPassword [0x70, 0, 0, 0, 6, 0x78, 0] = Inr [0x78] \<and>
   clearTextAuthenticator_authenticate sample_codec md5_Sum (ConstantPasswordProvider [])
     (fresh_conn [Inr [0x70, 0, 0, 0, 4]]) [''user'' \<mapsto> StringArg ''bob''] =
     (Inl SliceBoundsOutOfRange,
      \<lparr>sent = [[0x52, 0, 0, 0, 8, 0, 0, 0, 3]], write_results = [], read_results = []\<rparr>) \<and>
   md5Authenticator_authenticate sample_codec md5_Sum [1, 2, 3, 4] (ConstantPasswordProvider [])
     (fresh_conn [Inr [0x70, 0, 0, 0, 4]]) [''user'' \<mapsto> StringArg ''bob''] =
     (Inl SliceBoundsOutOfRange,
      \<lparr>sent = [[0x52, 0, 0, 0, 12, 0, 0, 0, 5, 1, 2, 3, 4]], write_results = [], read_results = []\<rparr>)"
proof -
  let ?m = "[0x70, 0, 0, 0, 4] :: msg"
  let ?args = "[''user'' \<mapsto> StringArg ''bob'']"
  let ?rw' = "\<lparr>sent = [[0x52, 0, 0, 0, 8, 0, 0, 0, 3]], write_results = [], read_results = [Inr ?m]\<rparr>"
  let ?rw'' = "\<lparr>sent = [[0x52, 0, 0, 0, 8, 0, 0, 0, 3]], write_results = [], read_results = []\<rparr>"
  let ?rv1 = "\<lparr>sent = [[0x52, 0, 0, 0, 12, 0, 0, 0, 5, 1, 2, 3, 4]], write_results = [], read_results = [Inr ?m]\<rparr>"
  let ?rv2 = "\<lparr>sent = [[0x52, 0, 0, 0, 12, 0, 0, 0, 5, 1, 2, 3, 4]], write_results = [], read_results = []\<rparr>"
  have t: "Type sample_codec ?m = 0x70" by (simp add: sample_codec_def first_byte_def)
  have w1: "conn_Write (fresh_conn [Inr ?m]) [0x52, 0, 0, 0, 8, 0, 0, 0, 3] = (None, ?rw')"
    by (simp add: conn_Write_def fresh_conn_def)
  have r1: "conn_Read ?rw' = (Inr ?m, ?rw'')" by (simp add: conn_Read_def)
  have w2: "conn_Write (fresh_conn [Inr ?m]) ([0x52, 0, 0, 0, 12, 0, 0, 0, 5] @ getRandomSalt [1, 2, 3, 4]) = (None, ?rv1)"
    by (simp add: conn_Write_def fresh_conn_def getRandomSalt_def)
  have r2: "conn_Read ?rv1 = (Inr ?m, ?rv2)" by (simp add: conn_Read_def)
  have u: "?args ''user'' = Some (StringArg ''bob'')" by simp
  show ?thesis
    using extractPassword_needs_six_bytes [where m = ?m and K = sample_codec and rw' = ?rw'
        and rw'' = ?rw'' and args = ?args and user = "''bob''" and rw = "fresh_conn [Inr ?m]"
        and H = md5_Sum and pp = "ConstantPasswordProvider []" and rnd = "[1, 2, 3, 4]"]
      extractPassword_needs_six_bytes [where m = ?m and K = sample_codec and rw' = ?rv1
        and rw'' = ?rv2 and args = ?args and user = "''bob''" and rw = "fresh_conn [Inr ?m]"
        and H = md5_Sum and pp = "ConstantPasswordProvider []" and rnd = "[1, 2, 3, 4]"]
      extractPassword_needs_six_bytes [where m = "[0x70, 0, 0, 0, 6, 0x78, 0]"]
      t w1 r1 w2 r2 u
    by simp
qed

section \<open>Properties of the query dispatcher\<close>

lemma stringify_eq:
  "i + length vs \<le> length strings \<Longrightarrow>
   stringify f i vs strings = take i strings @ map f vs @ drop (i + length vs) strings"
proof (induction vs arbitrary: i strings)
  case Nil
  then show ?case by simp
next
  case (Cons v vs)
  then have "i < length strings" by simp
  with Cons show ?case
    by (simp add: take_Suc_conv_app_nth upd_conv_take_nth_drop ac_simps)
qed

lemma stringify_all: "length row = length strings \<Longrightarrow> stringify f 0 row strings = map f row"
  by (simp add: stringify_eq)

lemma conn_Write_ok:
  "writes_succeed c \<Longrightarrow>
   conn_Write c m = (None, c\<lparr>sent := sent c @ [m], write_results := tl (write_results c)\<rparr>)"
  by (cases c) (auto simp: writes_succeed_def conn_Write_def split: list.splits option.splits)

lemma writes_succeed_after:
  "writes_succeed c \<Longrightarrow> writes_succeed (c\<lparr>sent := s, write_results := tl (write_results c)\<rparr>)"
  by (cases "write_results c") (auto simp: writes_succeed_def)

lemma query_rows_yields:
  "yields nxt it row rs \<Longrightarrow> length strings = length row \<Longrightarrow> writes_succeed c \<Longrightarrow>
   \<exists>c'. query_rows K f nxt it row strings count c = Some (None, c') \<and>
     sent c' = sent c @ map (\<lambda>r. dataRowMsg K (map f r)) rs @
       [completeMsg K (''SELECT '' @ fmt_d (sint (count + of_nat (length rs))))]"
proof (induction rs arbitrary: it row strings count c)
  case Nil
  then obtain row' it' where "nxt it row = (Some EOF, row', it')"
    by (cases "nxt it row") auto
  with Nil show ?case
    by (subst query_rows.simps) (simp add: conn_Write_ok)
next
  case (Cons r rs)
  then obtain it' where n: "nxt it row = (None, r, it')" and l: "length r = length row"
    and y: "yields nxt it' r rs"
    by (cases "nxt it row") (auto split: option.splits)
  let ?c1 = "c\<lparr>sent := sent c @ [dataRowMsg K (map f r)], write_results := tl (write_results c)\<rparr>"
  have w: "writes_succeed ?c1" using Cons.prems(3) by (rule writes_succeed_after)
  have ls: "length (map f r) = length r" by simp
  from Cons.IH [OF y ls w, of "count + 1"] obtain c' where
    h: "query_rows K f nxt it' r (map f r) (count + 1) ?c1 = Some (None, c')"
       "sent c' = sent ?c1 @ map (\<lambda>r. dataRowMsg K (map f r)) rs @
          [completeMsg K (''SELECT '' @ fmt_d (sint (count + 1 + of_nat (length rs))))]"
    by blast
  have s: "stringify f 0 r strings = map f r"
    using Cons.prems(2) l by (simp add: stringify_all)
  show ?case
    apply (subst query_rows.simps)
    using n s h Cons.prems(3) by (simp add: conn_Write_ok ac_simps)
qed

lemma sint_of_nat_64: "n < 2 ^ 63 \<Longrightarrow> sint (of_nat n :: 64 word) = int n"
proof -
  assume "n < 2 ^ 63"
  then have "int n < 2 ^ 63" by (metis of_nat_less_numeral_power_cancel_iff)
  then show ?thesis
    by (simp add: signed_of_nat signed_take_bit_int_eq_self)
qed


text \<open>
  Claim C5. The backend reports the columns \<open>columns\<close> and an iterator that delivers
  the rows \<open>rs\<close> and then \<open>io.EOF\<close>; the writes succeed, and the number of rows
  fits the counter (a Go \<open>int\<close>, below \<open>2^63\<close>). Then \<open>Query\<close> returns
  \<open>nil\<close> and has written one row description with the columns in the order of the
  backend, then one data row a row with every value formatted by \<open>%v\<close>, then one
  completion message with the tag \<open>SELECT n\<close> for the number \<open>n\<close> of rows.
\<close>

theorem query_path_messages:
  assumes "session_Query B n = Inr (columns, it)"
    and "yields (rows_Next B) it (replicate (length columns) vnil) rs"
    and "length rs < 2 ^ 63"
    and "writes_succeed c"
  shows "\<exists>c'. query_Query K B fmt_v vnil n c = Some (None, c') \<and>
           sent c' = sent c @ [rowDescriptionMsg K (map Column columns)] @
             map (\<lambda>r. dataRowMsg K (map fmt_v r)) rs @
             [completeMsg K (''SELECT '' @ fmt_d (int (length rs)))]"
proof -
  let ?c1 = "c\<lparr>sent := sent c @ [rowDescriptionMsg K (map Column columns)],
                write_results := tl (write_results c)\<rparr>"
  have w: "writes_succeed ?c1" using assms(4) by (rule writes_succeed_after)
  have l: "length (replicate (length columns) ([] :: string)) = length (replicate (length columns) vnil)"
    by simp
  from query_rows_yields [OF assms(2) l w, of K fmt_v 0] obtain c' where
    h: "query_rows K fmt_v (rows_Next B) it (replicate (length columns) vnil)
          (replicate (length columns) []) 0 ?c1 = Some (None, c')"
       "sent c' = sent ?c1 @ map (\<lambda>r. dataRowMsg K (map fmt_v r)) rs @
          [completeMsg K (''SELECT '' @ fmt_d (sint (0 + of_nat (length rs) :: 64 word)))]"
    by blast
  have "query_Query K B fmt_v vnil n c = Some (None, c')"
    using assms(1,4) h(1) by (simp add: query_Query_def conn_Write_ok)
  moreover have "sent c' = sent c @ [rowDescriptionMsg K (map Column columns)] @
             map (\<lambda>r. dataRowMsg K (map fmt_v r)) rs @
             [completeMsg K (''SELECT '' @ fmt_d (int (length rs)))]"
    using h(2) assms(3) by (simp add: sint_of_nat_64)
  ultimately show ?thesis by blast
qed

text \<open>
  The table of two rows of the sample backend gives \<open>SELECT 2\<close> after two data rows,
  the query without rows gives \<open>SELECT 0\<close> and no data row.
\<close>

lemma fmt_d_samples: "fmt_d 0 = ''0''" "fmt_d 2 = ''2''" "fmt_d 3 = ''3''" "fmt_d 5 = ''5''"
  "fmt_d 1 = ''1''"
  by code_simp+

theorem query_path_messages_witness:
  "(\<exists>c'. query_Query sample_codec sample_backend sample_fmt_v VNil
       \<lparr>node_type = SelectStmt, node_body = ''SELECT id, name FROM t''\<rparr> (fresh_conn []) =
       Some (None, c') \<and>
     sent c' =
       [rowDescriptionMsg sample_codec [Column ''id'', Column ''name''],
        dataRowMsg sample_codec [''1'', ''a''],
        dataRowMsg sample_codec [''2'', ''b''],
        completeMsg sample_codec ''SELECT 2'']) \<and>
   (\<exists>c'. query_Query sample_codec sample_backend sample_fmt_v VNil
       \<lparr>node_type = SelectStmt, node_body = ''SELECT id, name FROM t WHERE false''\<rparr> (fresh_conn []) =
       Some (None, c') \<and>
     sent c' =
       [rowDescriptionMsg sample_codec [Column ''id'', Column ''name''],
        completeMsg sample_codec ''SELECT 0''])"
proof -
  let ?n = "\<lparr>node_type = SelectStmt, node_body = ''SELECT id, name FROM t''\<rparr>"
  let ?z = "\<lparr>node_type = SelectStmt, node_body = ''SELECT id, name FROM t WHERE false''\<rparr>"
  let ?rs = "[[VInt 1, VString ''a''], [VInt 2, VString ''b'']]"
  have q: "session_Query sample_backend ?n = Inr ([''id'', ''name''], ?rs)"
    by (simp add: sample_backend_def)
  have qz: "session_Query sample_backend ?z = Inr ([''id'', ''name''], [])"
    by (simp add: sample_backend_def)
  have y: "yields (rows_Next sample_backend) ?rs (replicate (length [''id'', ''name'']) VNil) ?rs"
    by (simp add: sample_backend_def list_Next_def)
  have yz: "yields (rows_Next sample_backend) [] (replicate (length [''id'', ''name'']) VNil) []"
    by (simp add: sample_backend_def list_Next_def)
  have b: "length ?rs < 2 ^ 63" "length ([] :: sample_value list list) < 2 ^ 63" by simp_all
  have w: "writes_succeed (fresh_conn [])" by (simp add: writes_succeed_def fresh_conn_def)
  show ?thesis
    using query_path_messages [OF q y b(1) w, of sample_codec sample_fmt_v]
      query_path_messages [OF qz yz b(2) w, of sample_codec sample_fmt_v]
    by (simp add: fresh_conn_def fmt_d_samples)
qed

text \<open>
  Claim C6. For a result that reports the affected-row count \<open>n\<close> and has no tag of
  its own, the tag is the word of the statement's category followed by the count:
  \<open>INSERT 0\<close>, \<open>DELETE\<close>, \<open>UPDATE\<close>, \<open>FETCH\<close>, \<open>COPY\<close>, \<open>SELECT\<close> for
  create-table-as, and \<open>UPDATE\<close> for every other category; \<open>Exec\<close> writes the
  completion message with that tag.
\<close>

theorem command_tag_lookup:
  "(node_type stmt = InsertStmt \<longrightarrow> tagger_Tag (Inr n) stmt = Inr (''INSERT 0 '' @ fmt_d (sint n))) \<and>
   (node_type stmt = DeleteStmt \<longrightarrow> tagger_Tag (Inr n) stmt = Inr (''DELETE '' @ fmt_d (sint n))) \<and>
   (node_type stmt = UpdateStmt \<longrightarrow> tagger_Tag (Inr n) stmt = Inr (''UPDATE '' @ fmt_d (sint n))) \<and>
   (node_type stmt = FetchStmt \<longrightarrow> tagger_Tag (Inr n) stmt = Inr (''FETCH '' @ fmt_d (sint n))) \<and>
   (node_type stmt = CopyStmt \<longrightarrow> tagger_Tag (Inr n) stmt = Inr (''COPY '' @ fmt_d (sint n))) \<and>
   (node_type stmt = CreateTableAsStmt \<longrightarrow>
      tagger_Tag (Inr n) stmt = Inr (''SELECT '' @ fmt_d (sint n))) \<and>
   (node_type stmt \<notin> {InsertStmt, DeleteStmt, UpdateStmt, FetchStmt, CopyStmt, CreateTableAsStmt} \<longrightarrow>
      tagger_Tag (Inr n) stmt = Inr (''UPDATE '' @ fmt_d (sint n))) \<and>
   (session_Exec B stmt = Inr (DriverResult (Inr n)) \<longrightarrow>
      (\<exists>tag. tagger_Tag (Inr n) stmt = Inr tag \<and>
         query_Exec K B stmt c = conn_Write c (completeMsg K tag)))"
  by (cases "node_type stmt") (simp_all add: tagger_Tag_def query_Exec_def)

text \<open>
  An insert of 3 rows, a delete of none, and a statement of another category with the
  count 5.
\<close>

theorem command_tag_lookup_witness:
  "tagger_Tag (Inr 3) \<lparr>node_type = InsertStmt, node_body = ''INSERT INTO t VALUES (1), (2), (3)''\<rparr> =
     Inr ''INSERT 0 3'' \<and>
   tagger_Tag (Inr 0) \<lparr>node_type = DeleteStmt, node_body = ''DELETE FROM t WHERE false''\<rparr> =
     Inr ''DELETE 0'' \<and>
   tagger_Tag (Inr 5) \<lparr>node_type = OtherStmt ''TruncateStmt'', node_body = ''TRUNCATE t''\<rparr> =
     Inr ''UPDATE 5'' \<and>
   query_Exec sample_codec sample_backend
     \<lparr>node_type = InsertStmt, node_body = ''INSERT INTO t VALUES (1), (2), (3)''\<rparr> (fresh_conn []) =
     (None, \<lparr>sent = [completeMsg sample_codec ''INSERT 0 3''], write_results = [], read_results = []\<rparr>)"
proof -
  let ?i = "\<lparr>node_type = InsertStmt, node_body = ''INSERT INTO t VALUES (1), (2), (3)''\<rparr>"
  let ?d = "\<lparr>node_type = DeleteStmt, node_body = ''DELETE FROM t WHERE false''\<rparr>"
  let ?o = "\<lparr>node_type = OtherStmt ''TruncateStmt'', node_body = ''TRUNCATE t''\<rparr>"
  have e: "session_Exec sample_backend ?i = Inr (DriverResult (Inr 3))"
    by (simp add: sample_backend_def)
  show ?thesis
    using command_tag_lookup [of ?i 3 sample_backend sample_codec "fresh_conn []"]
      command_tag_lookup [of ?d 0 sample_backend sample_codec "fresh_conn []"]
      command_tag_lookup [of ?o 5 sample_backend sample_codec "fresh_conn []"] e
    by (auto simp: fmt_d_samples conn_Write_def fresh_conn_def)
qed

text \<open>
  Claim C7, as amended. For a credential mismatch (both password authenticators), a
  parse failure (\<open>Run\<close>) and a backend error (\<open>Query\<close>, \<open>Exec\<close>), the
  function hands one error message to \<open>Write\<close> and returns the outcome of that
  write, which is \<open>nil\<close> when the message was written (the authenticators with
  \<open>ok = false\<close>); a written message is the last one on the connection, and
  \<open>Run\<close>, the caller of \<open>Query\<close> and \<open>Exec\<close>, writes no second message
  after such a return.
\<close>

theorem failure_written_and_write_outcome_returned:
  "(conn_Write rw [0x52, 0, 0, 0, 8, 0, 0, 0, 3] = (None, rw') \<and> conn_Read rw' = (Inr m, rw'') \<and>
    Type K m = 0x70 \<and> args ''user'' = Some (StringArg user) \<and>
    extractPassword m = Inr pw \<and> pw \<noteq> fst (getPassword H pp user) \<longrightarrow>
      clearTextAuthenticator_authenticate K H pp rw args =
        (Inr (False, fst (conn_Write rw''
           (errMsg K (WithSeverity (FromErr (Errorf (passwordDidNotMatch user))) FATAL)))),
         snd (conn_Write rw''
           (errMsg K (WithSeverity (FromErr (Errorf (passwordDidNotMatch user))) FATAL))))) \<and>
   (conn_Write rw ([0x52, 0, 0, 0, 12, 0, 0, 0, 5] @ getRandomSalt rnd) = (None, rw') \<and>
    conn_Read rw' = (Inr m, rw'') \<and>
    Type K m = 0x70 \<and> args ''user'' = Some (StringArg user) \<and>
    extractPassword m = Inr pw \<and>
    pw \<noteq> hashWithSalt H (fst (getPassword H pp user)) (getRandomSalt rnd) \<longrightarrow>
      md5Authenticator_authenticate K H rnd pp rw args =
        (Inr (False, fst (conn_Write rw''
           (errMsg K (WithSeverity (FromErr (Errorf (passwordDidNotMatch user))) FATAL)))),
         snd (conn_Write rw''
           (errMsg K (WithSeverity (FromErr (Errorf (passwordDidNotMatch user))) FATAL))))) \<and>
   (parse sql = Inl err \<longrightarrow>
      query_Run K parse B fmt_v vnil sql c = Some (conn_Write c (errMsg K err))) \<and>
   (session_Query B n = Inl err \<longrightarrow>
      query_Query K B fmt_v vnil n c = Some (conn_Write c (errMsg K err))) \<and>
   (session_Exec B n = Inl err \<longrightarrow> query_Exec K B n c = conn_Write c (errMsg K err)) \<and>
   (conn_Write c msg = (None, c') \<longrightarrow> sent c' = sent c @ [msg]) \<and>
   (parse sql = Inr [n] \<and> node_type n = SelectStmt \<and> session_Query B n = Inl err \<and>
    conn_Write c (errMsg K err) = (None, c') \<longrightarrow>
      query_Run K parse B fmt_v vnil sql c = Some (None, c')) \<and>
   (parse sql = Inr [n] \<and> node_type n \<notin> {SelectStmt, VariableShowStmt} \<and>
    session_Exec B n = Inl err \<and> conn_Write c (errMsg K err) = (None, c') \<longrightarrow>
      query_Run K parse B fmt_v vnil sql c = Some (None, c'))"
proof (intro conjI impI; (elim conjE)?)
  show "clearTextAuthenticator_authenticate K H pp rw args =
        (Inr (False, fst (conn_Write rw''
           (errMsg K (WithSeverity (FromErr (Errorf (passwordDidNotMatch user))) FATAL)))),
         snd (conn_Write rw''
           (errMsg K (WithSeverity (FromErr (Errorf (passwordDidNotMatch user))) FATAL))))"
    if "conn_Write rw [0x52, 0, 0, 0, 8, 0, 0, 0, 3] = (None, rw')" "conn_Read rw' = (Inr m, rw'')"
      "Type K m = 0x70" "args ''user'' = Some (StringArg user)"
      "extractPassword m = Inr pw" "pw \<noteq> fst (getPassword H pp user)"
    using that
    by (auto simp: clearTextAuthenticator_authenticate_def user_arg_def Let_def
        split: prod.splits)
next
  show "md5Authenticator_authenticate K H rnd pp rw args =
        (Inr (False, fst (conn_Write rw''
           (errMsg K (WithSeverity (FromErr (Errorf (passwordDidNotMatch user))) FATAL)))),
         snd (conn_Write rw''
           (errMsg K (WithSeverity (FromErr (Errorf (passwordDidNotMatch user))) FATAL))))"
    if "conn_Write rw ([0x52, 0, 0, 0, 12, 0, 0, 0, 5] @ getRandomSalt rnd) = (None, rw')"
      "conn_Read rw' = (Inr m, rw'')"
      "Type K m = 0x70" "args ''user'' = Some (StringArg user)"
      "extractPassword m = Inr pw"
      "pw \<noteq> hashWithSalt H (fst (getPassword H pp user)) (getRandomSalt rnd)"
    using that
    by (auto simp: md5Authenticator_authenticate_def user_arg_def Let_def
        split: prod.splits)
next
  show "query_Run K parse B fmt_v vnil sql c = Some (conn_Write c (errMsg K err))"
    if "parse sql = Inl err"
    using that by (simp add: query_Run_def)
next
  show "query_Query K B fmt_v vnil n c = Some (conn_Write c (errMsg K err))"
    if "session_Query B n = Inl err"
    using that by (simp add: query_Query_def)
next
  show "query_Exec K B n c = conn_Write c (errMsg K err)" if "session_Exec B n = Inl err"
    using that by (simp add: query_Exec_def)
next
  show "sent c' = sent c @ [msg]" if "conn_Write c msg = (None, c')"
    using that by (simp add: conn_Write_sent)
next
  show "query_Run K parse B fmt_v vnil sql c = Some (None, c')"
    if "parse sql = Inr [n]" "node_type n = SelectStmt" "session_Query B n = Inl err"
      "conn_Write c (errMsg K err) = (None, c')"
    using that by (simp add: query_Run_def query_Query_def)
next
  show "query_Run K parse B fmt_v vnil sql c = Some (None, c')"
    if "parse sql = Inr [n]" "node_type n \<notin> {SelectStmt, VariableShowStmt}"
      "session_Exec B n = Inl err" "conn_Write c (errMsg K err) = (None, c')"
    using that by (cases "node_type n") (simp_all add: query_Run_def query_Exec_def)
qed

text \<open>
  Claim C7 as stated fails: after a wrong password, and after a backend error of a
  query, the error message is written and the error that is returned is \<open>nil\<close>.
\<close>

theorem error_not_returned_counterexample:
  "clearTextAuthenticator_authenticate sample_codec md5_Sum
     (ConstantPasswordProvider (bytes_of ''secret''))
     (fresh_conn [Inr [0x70, 0, 0, 0, 6, 0x78, 0]]) [''user'' \<mapsto> StringArg ''bob''] =
     (Inr (False, None),
      \<lparr>sent = [[0x52, 0, 0, 0, 8, 0, 0, 0, 3],
               errMsg sample_codec
                 (WithSeverity (FromErr (Errorf (passwordDidNotMatch ''bob''))) FATAL)],
       write_results = [], read_results = []\<rparr>) \<and>
   query_Query sample_codec sample_backend sample_fmt_v VNil
     \<lparr>node_type = SelectStmt, node_body = ''SELECT * FROM missing''\<rparr> (fresh_conn []) =
     Some (None,
      \<lparr>sent = [errMsg sample_codec (Errorf ''relation does not exist'')],
       write_results = [], read_results = []\<rparr>)"
  by (simp add: clearTextAuthenticator_authenticate_def query_Query_def conn_Write_def
      conn_Read_def fresh_conn_def user_arg_def extractPassword_def go_slice_def
      sample_codec_def first_byte_def sample_backend_def bytes_of_def)

text \<open>
  A wrong MD5 response, a statement that does not parse, a copy that the backend
  refuses, and a query on a missing table through \<open>Run\<close>.
\<close>

theorem failure_written_and_write_outcome_returned_witness:
  "md5Authenticator_authenticate sample_codec md5_Sum [1, 2, 3, 4]
     (Md5ConstantPasswordProvider (bytes_of ''secret''))
     (fresh_conn [Inr (0x70 # [0, 0, 0, 40] @ bytes_of ''md500000000000000000000000000000000'' @ [0])]) [''user'' \<mapsto> StringArg ''bob''] =
     (Inr (False, None),
      \<lparr>sent = [[0x52, 0, 0, 0, 12, 0, 0, 0, 5, 1, 2, 3, 4],
               errMsg sample_codec
                 (WithSeverity (FromErr (Errorf (passwordDidNotMatch ''bob''))) FATAL)],
       write_results = [], read_results = []\<rparr>) \<and>
   query_Run sample_codec (\<lambda>sql. Inl (Errorf ''syntax error'')) sample_backend sample_fmt_v VNil
     ''SELEC 1'' (fresh_conn []) =
     Some (None,
      \<lparr>sent = [errMsg sample_codec (Errorf ''syntax error'')],
       write_results = [], read_results = []\<rparr>) \<and>
   query_Exec sample_codec sample_backend
     \<lparr>node_type = CopyStmt, node_body = ''COPY t FROM STDIN''\<rparr> (fresh_conn []) =
     (None,
      \<lparr>sent = [errMsg sample_codec (Errorf ''permission denied'')],
       write_results = [], read_results = []\<rparr>) \<and>
   query_Run sample_codec
     (\<lambda>sql. Inr [\<lparr>node_type = SelectStmt, node_body = ''SELECT * FROM missing''\<rparr>])
     sample_backend sample_fmt_v VNil ''SELECT * FROM missing'' (fresh_conn []) =
     Some (None,
      \<lparr>sent = [errMsg sample_codec (Errorf ''relation does not exist'')],
       write_results = [], read_results = []\<rparr>)"
proof -
  let ?b = "0x70 # [0, 0, 0, 40] @ bytes_of ''md500000000000000000000000000000000'' @ [0]"
  let ?args = "[''user'' \<mapsto> StringArg ''bob'']"
  let ?pp = "Md5ConstantPasswordProvider (bytes_of ''secret'')"
  let ?rw' = "\<lparr>sent = [[0x52, 0, 0, 0, 12, 0, 0, 0, 5, 1, 2, 3, 4]], write_results = [], read_results = [Inr ?b]\<rparr>"
  let ?rw'' = "\<lparr>sent = [[0x52, 0, 0, 0, 12, 0, 0, 0, 5, 1, 2, 3, 4]], write_results = [], read_results = []\<rparr>"
  let ?q = "\<lparr>node_type = SelectStmt, node_body = ''SELECT * FROM missing''\<rparr>"
  let ?cp = "\<lparr>node_type = CopyStmt, node_body = ''COPY t FROM STDIN''\<rparr>"
  let ?c1 = "\<lparr>sent = [errMsg sample_codec (Errorf ''relation does not exist'')],
       write_results = [], read_results = []\<rparr>"
  have w: "conn_Write (fresh_conn [Inr ?b]) ([0x52, 0, 0, 0, 12, 0, 0, 0, 5] @ getRandomSalt [1, 2, 3, 4]) =
      (None, ?rw')"
    by (simp add: conn_Write_def fresh_conn_def getRandomSalt_def)
  have r: "conn_Read ?rw' = (Inr ?b, ?rw'')" by (simp add: conn_Read_def)
  have t: "Type sample_codec ?b = 0x70" by (simp add: sample_codec_def first_byte_def)
  have u: "?args ''user'' = Some (StringArg ''bob'')" by simp
  have e: "extractPassword ?b = Inr (bytes_of ''md500000000000000000000000000000000'')"
    by (simp add: extractPassword_eq bytes_of_def)
  have ne: "bytes_of ''md500000000000000000000000000000000'' \<noteq>
      hashWithSalt md5_Sum (fst (getPassword md5_Sum ?pp ''bob'')) (getRandomSalt [1, 2, 3, 4])"
    using md5_sample_bad_payload e by (simp add: hashWithSalt_def Let_def)
  have q: "session_Query sample_backend ?q = Inl (Errorf ''relation does not exist'')"
    by (simp add: sample_backend_def)
  have x: "session_Exec sample_backend ?cp = Inl (Errorf ''permission denied'')"
    by (simp add: sample_backend_def)
  have wq: "conn_Write (fresh_conn []) (errMsg sample_codec (Errorf ''relation does not exist'')) =
      (None, ?c1)"
    by (simp add: conn_Write_def fresh_conn_def)
  show ?thesis
    using failure_written_and_write_outcome_returned [where K = sample_codec and H = md5_Sum
        and rnd = "[1, 2, 3, 4]" and pp = ?pp and rw = "fresh_conn [Inr ?b]" and rw' = ?rw'
        and rw'' = ?rw'' and m = ?b and args = ?args and user = "''bob''"
        and pw = "bytes_of ''md500000000000000000000000000000000''"
        and parse = "\<lambda>sql. Inl (Errorf ''syntax error'')" and sql = "''SELEC 1''"
        and err = "Errorf ''syntax error''" and B = sample_backend and fmt_v = sample_fmt_v
        and vnil = VNil and c = "fresh_conn []"]
      failure_written_and_write_outcome_returned [where K = sample_codec and B = sample_backend
        and n = ?cp and err = "Errorf ''permission denied''" and c = "fresh_conn []"]
      failure_written_and_write_outcome_returned [where K = sample_codec and B = sample_backend
        and n = ?q and err = "Errorf ''relation does not exist''" and c = "fresh_conn []"
        and c' = ?c1 and parse = "\<lambda>sql. Inr [?q]" and sql = "''SELECT * FROM missing''"
        and fmt_v = sample_fmt_v and vnil = VNil]
      w r t u e ne q x wq
    by (simp add: conn_Write_def fresh_conn_def)
qed

end
